theory Spec2Isabelle
  imports Complex_Main "HOL-Library.Word"
begin

unbundle bit_operations_syntax

section \<open>The mesh loader of base/vulkanMeshLoader.hpp\<close>

text \<open>
  The theory embeds the parts of \<^verbatim>\<open>src/base/vulkanMeshLoader.hpp\<close> that compute:
  the stride of a vertex layout (\<^verbatim>\<open>vkMeshLoader::vertexSize\<close>), the choice of a memory
  type (\<^verbatim>\<open>getMemoryType\<close>), the ingestion of an imported scene (\<^verbatim>\<open>InitFromScene\<close>,
  \<^verbatim>\<open>InitMesh\<close>) and the packing of the vertex and index streams (\<^verbatim>\<open>createBuffers\<close>).

  Conventions of the embedding:
  \<^item> \<^verbatim>\<open>uint32_t\<close> and \<^verbatim>\<open>unsigned int\<close> are \<open>32 word\<close>: \<open>+\<close> wraps as in C++;
  \<^item> \<^verbatim>\<open>size_t\<close> and the length of a \<^verbatim>\<open>std::vector\<close> are \<open>nat\<close> (64 bits in the
    source, never near their limit here);
  \<^item> a \<^verbatim>\<open>float\<close> is the real number the value denotes, and a float product or
    difference is the exact one rounded to the nearest IEEE single, ties to even (\<open>fl\<close>);
    infinities and NaN are outside the model;
  \<^item> the loader object is a record that every member function takes and returns;
  \<^item> the Vulkan device is outside the source: the calls made to it are returned as a list.
\<close>

subsection \<open>Scalars\<close>

type_synonym uint32_t = "32 word"
type_synonym float = real

text \<open>\<^verbatim>\<open>sizeof(float)\<close> and \<^verbatim>\<open>sizeof(uint32_t)\<close>, in bytes.\<close>

definition sizeof_float :: nat where
  "sizeof_float = 4"

definition sizeof_uint32_t :: nat where
  "sizeof_uint32_t = 4"

text \<open>\<^verbatim>\<open>FLT_MAX\<close> of the C header \<^verbatim>\<open>float.h\<close>: the largest finite IEEE single.\<close>

definition FLT_MAX :: float where
  "FLT_MAX = 340282346638528859811704183484516925440"

subsection \<open>Float arithmetic\<close>

text \<open>
  An IEEE single is \<open>m * 2\<^sup>e\<close> with an integer \<open>m\<close> of at most 24 bits and \<open>e \<ge> -149\<close>. The
  result of \<^verbatim>\<open>a * b\<close> or \<^verbatim>\<open>a - b\<close> on floats is the exact result rounded to the nearest such
  number, and to the one with even \<open>m\<close> when two are as near: \<open>ulp_exponent r\<close> is the
  exponent \<open>e\<close> of the numbers around \<open>r\<close>, and \<open>round_even\<close> rounds \<open>r / 2\<^sup>e\<close> to an integer.
  A result beyond \<^verbatim>\<open>FLT_MAX\<close>, an infinity in the source, is outside the model.
\<close>

definition pow2 :: "int \<Rightarrow> real" where
  "pow2 e = (if 0 \<le> e then 2 ^ nat e else inverse (2 ^ nat (- e)))"

definition round_even :: "real \<Rightarrow> int" where
  "round_even q =
     (let f = \<lfloor>q\<rfloor>; d = q - of_int f
      in if d < 1 / 2 then f else if 1 / 2 < d then f + 1 else if even f then f else f + 1)"

definition ulp_exponent :: "real \<Rightarrow> int" where
  "ulp_exponent r = max (\<lfloor>log 2 \<bar>r\<bar>\<rfloor> - 23) (- 149)"

definition fl :: "real \<Rightarrow> float" where
  "fl r = (if r = 0 then 0
           else of_int (round_even (r / pow2 (ulp_exponent r))) * pow2 (ulp_exponent r))"

text \<open>\<^verbatim>\<open>a * b\<close> and \<^verbatim>\<open>a - b\<close> on \<^verbatim>\<open>float\<close>.\<close>

definition fmul :: "float \<Rightarrow> float \<Rightarrow> float" where
  "fmul a b = fl (a * b)"

definition fsub :: "float \<Rightarrow> float \<Rightarrow> float" where
  "fsub a b = fl (a - b)"

subsection \<open>The vertex layout\<close>

text \<open>
  \<^verbatim>\<open>typedef enum VertexLayout { VERTEX_LAYOUT_POSITION = 0x0, ... }\<close>. A C++ unscoped
  enumeration is an integer type, and the code tests its values with \<^verbatim>\<open>==\<close> and with a
  \<^verbatim>\<open>switch\<close> that has a \<^verbatim>\<open>default\<close>: a layout element is modelled by its integer value,
  the enumerators are the named constants of the source.
\<close>

type_synonym VertexLayout = "32 word"

definition VERTEX_LAYOUT_POSITION :: VertexLayout where
  "VERTEX_LAYOUT_POSITION = 0x0"

definition VERTEX_LAYOUT_NORMAL :: VertexLayout where
  "VERTEX_LAYOUT_NORMAL = 0x1"

definition VERTEX_LAYOUT_COLOR :: VertexLayout where
  "VERTEX_LAYOUT_COLOR = 0x2"

definition VERTEX_LAYOUT_UV :: VertexLayout where
  "VERTEX_LAYOUT_UV = 0x3"

definition VERTEX_LAYOUT_TANGENT :: VertexLayout where
  "VERTEX_LAYOUT_TANGENT = 0x4"

definition VERTEX_LAYOUT_BITANGENT :: VertexLayout where
  "VERTEX_LAYOUT_BITANGENT = 0x5"

definition VERTEX_LAYOUT_DUMMY_FLOAT :: VertexLayout where
  "VERTEX_LAYOUT_DUMMY_FLOAT = 0x6"

definition VERTEX_LAYOUT_DUMMY_VEC4 :: VertexLayout where
  "VERTEX_LAYOUT_DUMMY_VEC4 = 0x7"

text \<open>The enumerators the enumeration declares.\<close>

definition enumerators :: "VertexLayout list" where
  "enumerators =
     [VERTEX_LAYOUT_POSITION, VERTEX_LAYOUT_NORMAL, VERTEX_LAYOUT_COLOR, VERTEX_LAYOUT_UV,
      VERTEX_LAYOUT_TANGENT, VERTEX_LAYOUT_BITANGENT, VERTEX_LAYOUT_DUMMY_FLOAT,
      VERTEX_LAYOUT_DUMMY_VEC4]"

definition is_enumerator :: "VertexLayout \<Rightarrow> bool" where
  "is_enumerator layoutDetail = (layoutDetail \<in> set enumerators)"

subsection \<open>vkMeshLoader::vertexSize\<close>

text \<open>
  The range-for loop over the layout, \<open>vSize\<close> being the accumulator. The switch has two
  arms: \<^verbatim>\<open>case VERTEX_LAYOUT_UV\<close> adds \<^verbatim>\<open>2 * sizeof(float)\<close>, \<^verbatim>\<open>default\<close> adds
  \<^verbatim>\<open>3 * sizeof(float)\<close>. The sum is a \<^verbatim>\<open>uint32_t\<close>.
\<close>

fun vertexSize_loop :: "VertexLayout list \<Rightarrow> uint32_t \<Rightarrow> uint32_t" where
  "vertexSize_loop [] vSize = vSize"
| "vertexSize_loop (layoutDetail # rest) vSize =
     vertexSize_loop rest
       (if layoutDetail = VERTEX_LAYOUT_UV
        then vSize + of_nat (2 * sizeof_float)
        else vSize + of_nat (3 * sizeof_float))"

definition vertexSize :: "VertexLayout list \<Rightarrow> uint32_t" where
  "vertexSize layout = vertexSize_loop layout 0"

text \<open>
  The number of float components the specification gives each attribute kind
  (uv 2, pad-vec4 4, pad-scalar 1, every other kind 3): the stride the specification
  states, to compare \<open>vertexSize\<close> with.
\<close>

definition spec_components :: "VertexLayout \<Rightarrow> nat" where
  "spec_components layoutDetail =
     (if layoutDetail = VERTEX_LAYOUT_UV then 2
      else if layoutDetail = VERTEX_LAYOUT_DUMMY_VEC4 then 4
      else if layoutDetail = VERTEX_LAYOUT_DUMMY_FLOAT then 1
      else 3)"

definition spec_stride :: "VertexLayout list \<Rightarrow> nat" where
  "spec_stride layout = sum_list (map (\<lambda>k. spec_components k * 4) layout)"

subsection \<open>Vectors\<close>

text \<open>
  \<^verbatim>\<open>glm::vec2\<close> and \<^verbatim>\<open>glm::vec3\<close>. The members \<^verbatim>\<open>r, g, b\<close> and \<^verbatim>\<open>s, t\<close> of the source are
  aliases of \<^verbatim>\<open>x, y, z\<close>.
\<close>

datatype vec2 = Vec2 (vec2_x: float) (vec2_y: float)

datatype vec3 = Vec3 (vec3_x: float) (vec3_y: float) (vec3_z: float)

text \<open>\<^verbatim>\<open>glm::vec3(a)\<close>: every component is \<open>a\<close>.\<close>

definition vec3_of_scalar :: "float \<Rightarrow> vec3" where
  "vec3_of_scalar a = Vec3 a a a"

text \<open>\<^verbatim>\<open>a - b\<close> and \<^verbatim>\<open>a *= k\<close> on \<^verbatim>\<open>glm::vec3\<close>, component by component.\<close>

definition vec3_minus :: "vec3 \<Rightarrow> vec3 \<Rightarrow> vec3" where
  "vec3_minus a b =
     Vec3 (fsub (vec3_x a) (vec3_x b)) (fsub (vec3_y a) (vec3_y b)) (fsub (vec3_z a) (vec3_z b))"

definition vec3_times :: "vec3 \<Rightarrow> float \<Rightarrow> vec3" where
  "vec3_times a k = Vec3 (fmul (vec3_x a) k) (fmul (vec3_y a) k) (fmul (vec3_z a) k)"

text \<open>\<^verbatim>\<open>fmax\<close> and \<^verbatim>\<open>fmin\<close> of the C library, on numbers; they do not round.\<close>

definition fmax :: "float \<Rightarrow> float \<Rightarrow> float" where
  "fmax a b = (if a < b then b else a)"

definition fmin :: "float \<Rightarrow> float \<Rightarrow> float" where
  "fmin a b = (if b < a then b else a)"

subsection \<open>The imported scene\<close>

text \<open>
  The scene is built by the importer, outside the source. The model keeps what
  \<^verbatim>\<open>InitFromScene\<close> and \<^verbatim>\<open>InitMesh\<close> read of it. An array and its count are one list:
  \<^verbatim>\<open>mNumVertices\<close> is the length of \<^verbatim>\<open>mVertices\<close>, \<^verbatim>\<open>mNumFaces\<close> of \<^verbatim>\<open>mFaces\<close>,
  \<^verbatim>\<open>mNumIndices\<close> of \<^verbatim>\<open>mIndices\<close>, \<^verbatim>\<open>mNumMeshes\<close> of \<^verbatim>\<open>mMeshes\<close>. An optional array
  (a null pointer when absent) is an \<open>option\<close>; \<^verbatim>\<open>mTextureCoords0\<close> is channel 0 of
  \<^verbatim>\<open>mTextureCoords\<close>.
\<close>

datatype aiVector3D = aiVector3D (ai_x: float) (ai_y: float) (ai_z: float)

datatype aiColor3D = aiColor3D (ai_r: float) (ai_g: float) (ai_b: float)

record aiFace =
  mIndices :: "uint32_t list"

record aiMesh =
  mVertices :: "aiVector3D list"
  mNormals :: "aiVector3D list"
  mTextureCoords0 :: "aiVector3D list option"
  mTangents :: "aiVector3D list option"
  mBitangents :: "aiVector3D list option"
  mFaces :: "aiFace list"
  mMaterialIndex :: uint32_t

record aiMaterial =
  COLOR_DIFFUSE :: "aiColor3D option"

record aiScene =
  mMeshes :: "aiMesh list"
  mMaterials :: "aiMaterial list"

definition mNumIndices :: "aiFace \<Rightarrow> nat" where
  "mNumIndices Face = length (mIndices Face)"

definition mNumVertices :: "aiMesh \<Rightarrow> nat" where
  "mNumVertices paiMesh = length (mVertices paiMesh)"

definition mNumFaces :: "aiMesh \<Rightarrow> nat" where
  "mNumFaces paiMesh = length (mFaces paiMesh)"

definition mNumMeshes :: "aiScene \<Rightarrow> nat" where
  "mNumMeshes pScene = length (mMeshes pScene)"

text \<open>\<^verbatim>\<open>aiMesh::HasTextureCoords(0)\<close> and \<^verbatim>\<open>aiMesh::HasTangentsAndBitangents()\<close>.\<close>

definition HasTextureCoords0 :: "aiMesh \<Rightarrow> bool" where
  "HasTextureCoords0 paiMesh = (mTextureCoords0 paiMesh \<noteq> None \<and> 0 < mNumVertices paiMesh)"

definition HasTangentsAndBitangents :: "aiMesh \<Rightarrow> bool" where
  "HasTangentsAndBitangents paiMesh =
     (mTangents paiMesh \<noteq> None \<and> mBitangents paiMesh \<noteq> None \<and> 0 < mNumVertices paiMesh)"

text \<open>
  \<^verbatim>\<open>aiMaterial::Get(AI_MATKEY_COLOR_DIFFUSE, pColor)\<close>: the colour of the material when it
  has one, and \<open>pColor\<close> left as it was otherwise.
\<close>

definition Get_COLOR_DIFFUSE :: "aiMaterial \<Rightarrow> aiColor3D \<Rightarrow> aiColor3D" where
  "Get_COLOR_DIFFUSE mat pColor = (case COLOR_DIFFUSE mat of None \<Rightarrow> pColor | Some c \<Rightarrow> c)"

text \<open>
  What the importer guarantees of a mesh: every per-vertex array that is present has
  \<^verbatim>\<open>mNumVertices\<close> elements, and the material index is one of the scene's materials.
  Outside it \<^verbatim>\<open>InitMesh\<close> reads past an array, which C++ leaves undefined and the model
  leaves unspecified (\<open>xs ! i\<close>).
\<close>

definition array_ok :: "nat \<Rightarrow> aiVector3D list option \<Rightarrow> bool" where
  "array_ok n a = (case a of None \<Rightarrow> True | Some xs \<Rightarrow> length xs = n)"

definition wf_aiMesh :: "aiScene \<Rightarrow> aiMesh \<Rightarrow> bool" where
  "wf_aiMesh pScene paiMesh =
     (length (mNormals paiMesh) = mNumVertices paiMesh
      \<and> array_ok (mNumVertices paiMesh) (mTextureCoords0 paiMesh)
      \<and> array_ok (mNumVertices paiMesh) (mTangents paiMesh)
      \<and> array_ok (mNumVertices paiMesh) (mBitangents paiMesh)
      \<and> unat (mMaterialIndex paiMesh) < length (mMaterials pScene))"

definition wf_aiScene :: "aiScene \<Rightarrow> bool" where
  "wf_aiScene pScene = list_all (wf_aiMesh pScene) (mMeshes pScene)"

subsection \<open>The loader's data\<close>

record Vertex =
  m_pos :: vec3
  m_tex :: vec2
  m_normal :: vec3
  m_color :: vec3
  m_tangent :: vec3
  m_binormal :: vec3

text \<open>The constructor \<^verbatim>\<open>Vertex(pos, tex, normal, tangent, bitangent, color)\<close>.\<close>

definition Vertex_ctor :: "vec3 \<Rightarrow> vec2 \<Rightarrow> vec3 \<Rightarrow> vec3 \<Rightarrow> vec3 \<Rightarrow> vec3 \<Rightarrow> Vertex" where
  "Vertex_ctor pos tex normal tangent bitangent color =
     \<lparr>m_pos = pos, m_tex = tex, m_normal = normal, m_color = color,
      m_tangent = tangent, m_binormal = bitangent\<rparr>"

record MeshEntry =
  NumIndices :: uint32_t
  MaterialIndex :: uint32_t
  vertexBase :: uint32_t
  Vertices :: "Vertex list"
  Indices :: "uint32_t list"

text \<open>The element \<^verbatim>\<open>std::vector::resize\<close> adds: a value-initialised \<^verbatim>\<open>MeshEntry\<close>.\<close>

definition MeshEntry_init :: MeshEntry where
  "MeshEntry_init =
     \<lparr>NumIndices = 0, MaterialIndex = 0, vertexBase = 0, Vertices = [], Indices = []\<rparr>"

text \<open>
  \<^verbatim>\<open>struct Dimension { vec3 min, max, size; } dim\<close>; the fields carry the prefix
  \<open>dim_\<close>, since \<open>min\<close>, \<open>max\<close> and \<open>size\<close> are constants of HOL.
\<close>

record Dimension =
  dim_min :: vec3
  dim_max :: vec3
  dim_size :: vec3

record VulkanMeshLoader =
  m_Entries :: "MeshEntry list"
  dim :: Dimension
  numVertices :: uint32_t

text \<open>
  A loader as its default member initialisers leave it: no entry, no vertex counted,
  \<^verbatim>\<open>dim.min = vec3(FLT_MAX)\<close>, \<^verbatim>\<open>dim.max = vec3(-FLT_MAX)\<close>. \<^verbatim>\<open>dim.size\<close> has no
  initialiser in the source and is left free.
\<close>

definition constructed :: "VulkanMeshLoader \<Rightarrow> bool" where
  "constructed s =
     (m_Entries s = [] \<and> numVertices s = 0
      \<and> dim_min (dim s) = vec3_of_scalar FLT_MAX
      \<and> dim_max (dim s) = vec3_of_scalar (- FLT_MAX))"

subsection \<open>getMemoryType\<close>

text \<open>
  \<^verbatim>\<open>vk::PhysicalDeviceMemoryProperties\<close>: a table \<^verbatim>\<open>memoryTypes\<close> of
  \<^verbatim>\<open>VK_MAX_MEMORY_TYPES = 32\<close> entries, a function of the index here. Flags are bit masks.
\<close>

record MemoryType =
  propertyFlags :: uint32_t
  heapIndex :: uint32_t

record PhysicalDeviceMemoryProperties =
  memoryTypeCount :: uint32_t
  memoryTypes :: "nat \<Rightarrow> MemoryType"

text \<open>
  The loop \<^verbatim>\<open>for (uint32_t i = 0; i < 32; i++)\<close>, from the counter \<open>i\<close> on; \<open>typeBits\<close> has
  been shifted right \<open>i\<close> times. After the loop the source has the comment
  \<^verbatim>\<open>// todo : throw error\<close> and the statement \<^verbatim>\<open>return 0;\<close>.
\<close>

function getMemoryType_loop ::
  "PhysicalDeviceMemoryProperties \<Rightarrow> nat \<Rightarrow> uint32_t \<Rightarrow> uint32_t \<Rightarrow> uint32_t" where
  "getMemoryType_loop deviceMemoryProperties i typeBits properties =
     (if i < 32 then
        (if (typeBits AND 1) = 1 then
           (if (propertyFlags (memoryTypes deviceMemoryProperties i) AND properties) = properties
            then of_nat i
            else getMemoryType_loop deviceMemoryProperties (Suc i) (drop_bit 1 typeBits) properties)
         else getMemoryType_loop deviceMemoryProperties (Suc i) (drop_bit 1 typeBits) properties)
      else 0)"
  by pat_completeness auto
termination
  by (relation "measure (\<lambda>(d, i, t, p). 32 - i)") auto

definition getMemoryType ::
  "PhysicalDeviceMemoryProperties \<Rightarrow> uint32_t \<Rightarrow> uint32_t \<Rightarrow> uint32_t" where
  "getMemoryType deviceMemoryProperties typeBits properties =
     getMemoryType_loop deviceMemoryProperties 0 typeBits properties"

text \<open>
  Index \<open>i\<close> qualifies: bit \<open>i\<close> of the mask is set and the type has every requested
  property flag.
\<close>

definition qualifies ::
  "PhysicalDeviceMemoryProperties \<Rightarrow> uint32_t \<Rightarrow> uint32_t \<Rightarrow> nat \<Rightarrow> bool" where
  "qualifies deviceMemoryProperties typeBits properties i =
     (bit typeBits i
      \<and> (propertyFlags (memoryTypes deviceMemoryProperties i) AND properties) = properties)"

subsection \<open>InitMesh\<close>

text \<open>\<^verbatim>\<open>aiVector3D Zero3D(0.0f, 0.0f, 0.0f)\<close>.\<close>

definition Zero3D :: aiVector3D where
  "Zero3D = aiVector3D 0 0 0"

text \<open>\<^verbatim>\<open>m_Entries[index]\<close> assigned through a function of the entry.\<close>

definition update_entry ::
  "nat \<Rightarrow> (MeshEntry \<Rightarrow> MeshEntry) \<Rightarrow> VulkanMeshLoader \<Rightarrow> VulkanMeshLoader" where
  "update_entry index f s = s\<lparr>m_Entries := (m_Entries s)[index := f (m_Entries s ! index)]\<rparr>"

text \<open>
  The vertex loop of \<^verbatim>\<open>InitMesh\<close>, for vertex \<open>i\<close> of the mesh. First the \<^verbatim>\<open>Vertex v(...)\<close>
  it builds: the position with its y negated, the texture coordinate of channel 0 or
  zero, the normal as the scene has it, the tangent and bitangent or zero, the colour of
  the material.
\<close>

definition InitMesh_v :: "aiMesh \<Rightarrow> aiColor3D \<Rightarrow> nat \<Rightarrow> Vertex" where
  "InitMesh_v paiMesh pColor i =
     (let pPos = mVertices paiMesh ! i;
          pNormal = mNormals paiMesh ! i;
          pTexCoord = (if HasTextureCoords0 paiMesh
                       then the (mTextureCoords0 paiMesh) ! i else Zero3D);
          pTangent = (if HasTangentsAndBitangents paiMesh
                      then the (mTangents paiMesh) ! i else Zero3D);
          pBiTangent = (if HasTangentsAndBitangents paiMesh
                        then the (mBitangents paiMesh) ! i else Zero3D)
      in Vertex_ctor
           (Vec3 (ai_x pPos) (- ai_y pPos) (ai_z pPos))
           (Vec2 (ai_x pTexCoord) (ai_y pTexCoord))
           (Vec3 (ai_x pNormal) (ai_y pNormal) (ai_z pNormal))
           (Vec3 (ai_x pTangent) (ai_y pTangent) (ai_z pTangent))
           (Vec3 (ai_x pBiTangent) (ai_y pBiTangent) (ai_z pBiTangent))
           (Vec3 (ai_r pColor) (ai_g pColor) (ai_b pColor)))"

text \<open>
  Then the six assignments to \<^verbatim>\<open>dim.max\<close> and \<^verbatim>\<open>dim.min\<close>, from the position \<open>pPos\<close> as
  the scene has it; \<^verbatim>\<open>dim.size\<close> is not touched.
\<close>

definition InitMesh_dim :: "aiVector3D \<Rightarrow> Dimension \<Rightarrow> Dimension" where
  "InitMesh_dim pPos d =
     d\<lparr>dim_max := Vec3 (fmax (ai_x pPos) (vec3_x (dim_max d)))
                      (fmax (ai_y pPos) (vec3_y (dim_max d)))
                      (fmax (ai_z pPos) (vec3_z (dim_max d))),
       dim_min := Vec3 (fmin (ai_x pPos) (vec3_x (dim_min d)))
                      (fmin (ai_y pPos) (vec3_y (dim_min d)))
                      (fmin (ai_z pPos) (vec3_z (dim_min d)))\<rparr>"

text \<open>One turn of the loop: the vertex, the bounding box, the \<^verbatim>\<open>push_back\<close>.\<close>

definition InitMesh_vertex ::
  "nat \<Rightarrow> aiMesh \<Rightarrow> aiColor3D \<Rightarrow> nat \<Rightarrow> VulkanMeshLoader \<Rightarrow> VulkanMeshLoader" where
  "InitMesh_vertex index paiMesh pColor i s =
     (let v = InitMesh_v paiMesh pColor i;
          s1 = s\<lparr>dim := InitMesh_dim (mVertices paiMesh ! i) (dim s)\<rparr>
      in update_entry index (\<lambda>e. e\<lparr>Vertices := Vertices e @ [v]\<rparr>) s1)"

text \<open>
  One turn of the face loop, for face \<open>i\<close>: \<^verbatim>\<open>if (Face.mNumIndices != 3) continue;\<close>, then
  the three indices are pushed.
\<close>

definition InitMesh_face ::
  "nat \<Rightarrow> aiMesh \<Rightarrow> nat \<Rightarrow> VulkanMeshLoader \<Rightarrow> VulkanMeshLoader" where
  "InitMesh_face index paiMesh i s =
     (let Face = mFaces paiMesh ! i
      in if mNumIndices Face \<noteq> 3 then s
         else update_entry index
                (\<lambda>e. e\<lparr>Indices := Indices e @ [mIndices Face ! 0, mIndices Face ! 1,
                                                 mIndices Face ! 2]\<rparr>) s)"

text \<open>
  \<^verbatim>\<open>aiColor3D pColor(0.f, 0.f, 0.f)\<close>, then the material's diffuse colour read into it.
\<close>

definition InitMesh_pColor :: "aiMesh \<Rightarrow> aiScene \<Rightarrow> aiColor3D" where
  "InitMesh_pColor paiMesh pScene =
     Get_COLOR_DIFFUSE (mMaterials pScene ! unat (mMaterialIndex paiMesh)) (aiColor3D 0 0 0)"

definition InitMesh :: "nat \<Rightarrow> aiMesh \<Rightarrow> aiScene \<Rightarrow> VulkanMeshLoader \<Rightarrow> VulkanMeshLoader" where
  "InitMesh index paiMesh pScene s =
     (let s1 = update_entry index (\<lambda>e. e\<lparr>MaterialIndex := mMaterialIndex paiMesh\<rparr>) s;
          pColor = InitMesh_pColor paiMesh pScene;
          s2 = fold (InitMesh_vertex index paiMesh pColor) [0..<mNumVertices paiMesh] s1;
          s3 = s2\<lparr>dim := (dim s2)\<lparr>dim_size :=
                  vec3_minus (dim_max (dim s2)) (dim_min (dim s2))\<rparr>\<rparr>
      in fold (InitMesh_face index paiMesh) [0..<mNumFaces paiMesh] s3)"

subsection \<open>InitFromScene\<close>

text \<open>\<^verbatim>\<open>m_Entries.resize(n)\<close>: the first \<open>n\<close> entries, filled up with new ones.\<close>

definition resize :: "nat \<Rightarrow> MeshEntry list \<Rightarrow> MeshEntry list" where
  "resize n es = take n es @ replicate (n - length es) MeshEntry_init"

text \<open>One turn of the loop under the comment \<^verbatim>\<open>// Counters\<close>.\<close>

definition InitFromScene_counter :: "aiScene \<Rightarrow> nat \<Rightarrow> VulkanMeshLoader \<Rightarrow> VulkanMeshLoader" where
  "InitFromScene_counter pScene i s =
     (let s1 = update_entry i (\<lambda>e. e\<lparr>vertexBase := numVertices s\<rparr>) s
      in s1\<lparr>numVertices := numVertices s1 + of_nat (mNumVertices (mMeshes pScene ! i))\<rparr>)"

text \<open>The state after the resize and the whole first loop.\<close>

definition InitFromScene_counters :: "aiScene \<Rightarrow> VulkanMeshLoader \<Rightarrow> VulkanMeshLoader" where
  "InitFromScene_counters pScene s =
     (let s1 = s\<lparr>m_Entries := resize (mNumMeshes pScene) (m_Entries s)\<rparr>
      in fold (InitFromScene_counter pScene) [0..<length (m_Entries s1)] s1)"

text \<open>The second loop: the meshes of the scene one by one.\<close>

definition InitFromScene_meshes :: "aiScene \<Rightarrow> VulkanMeshLoader \<Rightarrow> VulkanMeshLoader" where
  "InitFromScene_meshes pScene s =
     fold (\<lambda>i. InitMesh i (mMeshes pScene ! i) pScene) [0..<length (m_Entries s)] s"

text \<open>\<^verbatim>\<open>InitFromScene\<close> returns \<^verbatim>\<open>true\<close> on every path.\<close>

definition InitFromScene :: "aiScene \<Rightarrow> VulkanMeshLoader \<Rightarrow> bool \<times> VulkanMeshLoader" where
  "InitFromScene pScene s = (True, InitFromScene_meshes pScene (InitFromScene_counters pScene s))"

subsection \<open>createBuffers: the two streams\<close>

text \<open>
  The body of the loop over the layout, for one vertex and one layout element: a sequence
  of \<^verbatim>\<open>if\<close> statements without \<^verbatim>\<open>else\<close>, each pushing on \<open>vertexBuffer\<close>.
\<close>

definition push_layoutDetail :: "Vertex \<Rightarrow> float \<Rightarrow> VertexLayout \<Rightarrow> float list \<Rightarrow> float list" where
  "push_layoutDetail v scale layoutDetail vertexBuffer =
     (let b1 = (if layoutDetail = VERTEX_LAYOUT_POSITION
                then vertexBuffer @ [fmul (vec3_x (m_pos v)) scale, fmul (vec3_y (m_pos v)) scale,
                                     fmul (vec3_z (m_pos v)) scale]
                else vertexBuffer);
          b2 = (if layoutDetail = VERTEX_LAYOUT_NORMAL
                then b1 @ [vec3_x (m_normal v), - vec3_y (m_normal v), vec3_z (m_normal v)]
                else b1);
          b3 = (if layoutDetail = VERTEX_LAYOUT_UV
                then b2 @ [vec2_x (m_tex v), vec2_y (m_tex v)]
                else b2);
          b4 = (if layoutDetail = VERTEX_LAYOUT_COLOR
                then b3 @ [vec3_x (m_color v), vec3_y (m_color v), vec3_z (m_color v)]
                else b3);
          b5 = (if layoutDetail = VERTEX_LAYOUT_TANGENT
                then b4 @ [vec3_x (m_tangent v), vec3_y (m_tangent v), vec3_z (m_tangent v)]
                else b4);
          b6 = (if layoutDetail = VERTEX_LAYOUT_BITANGENT
                then b5 @ [vec3_x (m_binormal v), vec3_y (m_binormal v), vec3_z (m_binormal v)]
                else b5);
          b7 = (if layoutDetail = VERTEX_LAYOUT_DUMMY_FLOAT then b6 @ [0] else b6);
          b8 = (if layoutDetail = VERTEX_LAYOUT_DUMMY_VEC4 then b7 @ [0, 0, 0, 0] else b7)
      in b8)"

text \<open>The loops over the layout, over the vertices of an entry and over the entries.\<close>

definition pack_vertex :: "float \<Rightarrow> VertexLayout list \<Rightarrow> Vertex \<Rightarrow> float list \<Rightarrow> float list" where
  "pack_vertex scale layout v vertexBuffer = fold (push_layoutDetail v scale) layout vertexBuffer"

definition pack_entry :: "float \<Rightarrow> VertexLayout list \<Rightarrow> MeshEntry \<Rightarrow> float list \<Rightarrow> float list" where
  "pack_entry scale layout e vertexBuffer =
     fold (\<lambda>i. pack_vertex scale layout (Vertices e ! i)) [0..<length (Vertices e)] vertexBuffer"

definition pack_vertices :: "MeshEntry list \<Rightarrow> VertexLayout list \<Rightarrow> float \<Rightarrow> float list" where
  "pack_vertices entries layout scale =
     fold (\<lambda>m. pack_entry scale layout (entries ! m)) [0..<length entries] []"

text \<open>
  The index loops: \<^verbatim>\<open>indexBase = (uint32_t)indexBuffer.size()\<close> is read once per entry,
  before its indices are pushed.
\<close>

definition merge_entry :: "MeshEntry \<Rightarrow> uint32_t list \<Rightarrow> uint32_t list" where
  "merge_entry e indexBuffer =
     (let indexBase = (of_nat (length indexBuffer) :: uint32_t)
      in fold (\<lambda>i b. b @ [Indices e ! i + indexBase]) [0..<length (Indices e)] indexBuffer)"

definition merge_indices :: "MeshEntry list \<Rightarrow> uint32_t list" where
  "merge_indices entries = fold (\<lambda>m. merge_entry (entries ! m)) [0..<length entries] []"

subsection \<open>createBuffers: the device\<close>

text \<open>
  The flag bits the source names (\<^verbatim>\<open>vk::BufferUsageFlagBits\<close>,
  \<^verbatim>\<open>vk::MemoryPropertyFlagBits\<close>), with the values of the Vulkan header.
\<close>

definition eTransferSrc :: uint32_t where
  "eTransferSrc = 0x1"

definition eTransferDst :: uint32_t where
  "eTransferDst = 0x2"

definition eIndexBuffer :: uint32_t where
  "eIndexBuffer = 0x40"

definition eVertexBuffer :: uint32_t where
  "eVertexBuffer = 0x80"

definition eDeviceLocal :: uint32_t where
  "eDeviceLocal = 0x1"

definition eHostVisible :: uint32_t where
  "eHostVisible = 0x2"

text \<open>
  The device answers \<^verbatim>\<open>getBufferMemoryRequirements\<close> for a buffer of a given usage and
  size; the answer is the device's, so the device is this function. Every other call of
  the source on the device, the command buffer and the queue is recorded, in order, with
  the numbers the source passes.
\<close>

record MemoryRequirements =
  requiredSize :: nat
  memoryTypeBits :: uint32_t

type_synonym Device = "uint32_t \<Rightarrow> nat \<Rightarrow> MemoryRequirements"

datatype DeviceCall =
    CreateBuffer uint32_t nat
  | AllocateMemory nat uint32_t
  | BindBufferMemory
  | MapMemory
  | Memcpy nat
  | UnmapMemory
  | CmdBegin
  | CmdCopyBuffer nat
  | CmdEnd
  | QueueSubmit
  | QueueWaitIdle
  | DestroyBuffer
  | FreeMemory

text \<open>\<^verbatim>\<open>createBuffer\<close>: the buffer, its memory of the type \<open>getMemoryType\<close> picks, the binding.\<close>

definition createBuffer ::
  "Device \<Rightarrow> PhysicalDeviceMemoryProperties \<Rightarrow> uint32_t \<Rightarrow> uint32_t \<Rightarrow> nat \<Rightarrow> DeviceCall list" where
  "createBuffer device deviceMemoryProperties usageFlags memoryPropertyFlags bytes =
     (let memReqs = device usageFlags bytes
      in [CreateBuffer usageFlags bytes,
          AllocateMemory (requiredSize memReqs)
            (getMemoryType deviceMemoryProperties (memoryTypeBits memReqs) memoryPropertyFlags),
          BindBufferMemory])"

text \<open>Whether a device call allocates: a buffer or its memory.\<close>

fun is_allocation :: "DeviceCall \<Rightarrow> bool" where
  "is_allocation (CreateBuffer u n) = True"
| "is_allocation (AllocateMemory n t) = True"
| "is_allocation c = False"

text \<open>
  What \<^verbatim>\<open>createBuffers\<close> leaves: the loader, the sizes and the count it writes to
  \<^verbatim>\<open>*meshBuffer\<close>, the two local streams \<^verbatim>\<open>vertexBuffer\<close> and \<^verbatim>\<open>indexBuffer\<close>, and the
  device calls.
\<close>

record createBuffers_result =
  loader :: VulkanMeshLoader
  vertices_size :: nat
  indices_size :: nat
  indexCount :: uint32_t
  vertexBuffer :: "float list"
  indexBuffer :: "uint32_t list"
  calls :: "DeviceCall list"

text \<open>The two upload paths; \<open>vsize\<close> and \<open>isize\<close> are the byte sizes of the streams.\<close>

definition staging_path ::
  "Device \<Rightarrow> PhysicalDeviceMemoryProperties \<Rightarrow> nat \<Rightarrow> nat \<Rightarrow> DeviceCall list" where
  "staging_path device deviceMemoryProperties vsize isize =
     createBuffer device deviceMemoryProperties eTransferSrc eHostVisible vsize
     @ [MapMemory, Memcpy vsize, UnmapMemory]
     @ createBuffer device deviceMemoryProperties eTransferSrc eHostVisible isize
     @ [MapMemory, Memcpy isize, UnmapMemory]
     @ createBuffer device deviceMemoryProperties (eVertexBuffer OR eTransferDst) eDeviceLocal vsize
     @ createBuffer device deviceMemoryProperties (eIndexBuffer OR eTransferDst) eDeviceLocal isize
     @ [CmdBegin, CmdCopyBuffer vsize, CmdCopyBuffer isize, CmdEnd, QueueSubmit, QueueWaitIdle,
        DestroyBuffer, FreeMemory, DestroyBuffer, FreeMemory]"

definition direct_path ::
  "Device \<Rightarrow> PhysicalDeviceMemoryProperties \<Rightarrow> nat \<Rightarrow> nat \<Rightarrow> DeviceCall list" where
  "direct_path device deviceMemoryProperties vsize isize =
     createBuffer device deviceMemoryProperties (eVertexBuffer OR eTransferSrc) eHostVisible vsize
     @ [MapMemory, Memcpy vsize, UnmapMemory]
     @ createBuffer device deviceMemoryProperties (eIndexBuffer OR eTransferSrc) eHostVisible isize
     @ [MapMemory, Memcpy isize, UnmapMemory]"

text \<open>
  \<^verbatim>\<open>createBuffers\<close>. \<open>copyCmd\<close> and \<open>copyQueue\<close> say whether the handle is not null. The
  function has no return value and no statement that throws or returns early.
\<close>

definition createBuffers ::
  "Device \<Rightarrow> PhysicalDeviceMemoryProperties \<Rightarrow> VertexLayout list \<Rightarrow> float \<Rightarrow> bool \<Rightarrow> bool
   \<Rightarrow> bool \<Rightarrow> VulkanMeshLoader \<Rightarrow> createBuffers_result" where
  "createBuffers device deviceMemoryProperties layout scale useStaging copyCmd copyQueue s =
     (let vb = pack_vertices (m_Entries s) layout scale;
          vsize = length vb * sizeof_float;
          d = dim s;
          s' = s\<lparr>dim := d\<lparr>dim_min := vec3_times (dim_min d) scale,
                          dim_max := vec3_times (dim_max d) scale,
                          dim_size := vec3_times (dim_size d) scale\<rparr>\<rparr>;
          ib = merge_indices (m_Entries s);
          isize = length ib * sizeof_uint32_t
      in \<lparr>loader = s',
          vertices_size = vsize,
          indices_size = isize,
          indexCount = of_nat (length ib),
          vertexBuffer = vb,
          indexBuffer = ib,
          calls = (if useStaging \<and> copyQueue \<and> copyCmd
                   then staging_path device deviceMemoryProperties vsize isize
                   else direct_path device deviceMemoryProperties vsize isize)\<rparr>)"


subsection \<open>Summaries of the loops\<close>

text \<open>The floats one layout element pushes for a vertex: the body run on an empty buffer.\<close>

definition layoutDetail_floats :: "Vertex \<Rightarrow> float \<Rightarrow> VertexLayout \<Rightarrow> float list" where
  "layoutDetail_floats v scale layoutDetail = push_layoutDetail v scale layoutDetail []"

text \<open>
  Two summaries, each proved below to be what \<open>InitMesh\<close> computes (\<open>InitMesh_eq\<close>): the
  entry \<open>InitMesh\<close> leaves in place of entry \<open>e\<close>, and the bounding box it leaves in place
  of \<open>d\<close>.
\<close>

definition InitMesh_entry :: "aiMesh \<Rightarrow> aiScene \<Rightarrow> MeshEntry \<Rightarrow> MeshEntry" where
  "InitMesh_entry paiMesh pScene e =
     e\<lparr>MaterialIndex := mMaterialIndex paiMesh,
       Vertices := Vertices e @
         map (InitMesh_v paiMesh (InitMesh_pColor paiMesh pScene)) [0..<mNumVertices paiMesh],
       Indices := Indices e @
         concat (map mIndices (filter (\<lambda>Face. mNumIndices Face = 3) (mFaces paiMesh)))\<rparr>"

definition InitMesh_dims :: "aiMesh \<Rightarrow> Dimension \<Rightarrow> Dimension" where
  "InitMesh_dims paiMesh d =
     (let d' = fold InitMesh_dim (mVertices paiMesh) d
      in d'\<lparr>dim_size := vec3_minus (dim_max d') (dim_min d')\<rparr>)"

subsection \<open>Example inputs\<close>

text \<open>
  A loader as constructed (with \<^verbatim>\<open>dim.size\<close> zero), a device that accepts every memory
  type, and three small scenes, used to run the functions on concrete inputs.
\<close>

definition loader0 :: VulkanMeshLoader where
  "loader0 =
     \<lparr>m_Entries = [],
      dim = \<lparr>dim_min = vec3_of_scalar FLT_MAX, dim_max = vec3_of_scalar (- FLT_MAX),
             dim_size = vec3_of_scalar 0\<rparr>,
      numVertices = 0\<rparr>"

definition device0 :: Device where
  "device0 = (\<lambda>usageFlags bytes. \<lparr>requiredSize = bytes, memoryTypeBits = 0xFFFFFFFF\<rparr>)"

definition deviceMemoryProperties0 :: PhysicalDeviceMemoryProperties where
  "deviceMemoryProperties0 =
     \<lparr>memoryTypeCount = 2,
      memoryTypes = (\<lambda>i. if i = 0 then \<lparr>propertyFlags = eDeviceLocal, heapIndex = 0\<rparr>
                         else \<lparr>propertyFlags = eHostVisible, heapIndex = 1\<rparr>)\<rparr>"

text \<open>A mesh of the given positions, normals and faces, with no other array, of material 0.\<close>

definition mesh_of :: "aiVector3D list \<Rightarrow> aiVector3D list \<Rightarrow> uint32_t list list \<Rightarrow> aiMesh" where
  "mesh_of ps ns fs =
     \<lparr>mVertices = ps, mNormals = ns, mTextureCoords0 = None, mTangents = None,
      mBitangents = None, mFaces = map (\<lambda>f. \<lparr>mIndices = f\<rparr>) fs, mMaterialIndex = 0\<rparr>"

definition scene_of :: "aiMesh list \<Rightarrow> aiScene" where
  "scene_of ms = \<lparr>mMeshes = ms, mMaterials = [\<lparr>COLOR_DIFFUSE = Some (aiColor3D 1 1 1)\<rparr>]\<rparr>"

text \<open>
  A quad of four shared vertices cut in two triangles (six indices), then a triangle of
  three vertices: what the importer gives when identical vertices are joined.
\<close>

definition scene_quad_triangle :: aiScene where
  "scene_quad_triangle =
     scene_of
       [mesh_of [aiVector3D 0 0 0, aiVector3D 1 0 0, aiVector3D 1 1 0, aiVector3D 0 1 0]
                [aiVector3D 0 0 1, aiVector3D 0 0 1, aiVector3D 0 0 1, aiVector3D 0 0 1]
                [[0, 1, 2], [2, 3, 0]],
        mesh_of [aiVector3D 0 0 1, aiVector3D 1 0 1, aiVector3D 0 1 1]
                [aiVector3D 0 0 1, aiVector3D 0 0 1, aiVector3D 0 0 1]
                [[0, 1, 2]]]"

text \<open>The two positions of the specification's bounding-box example.\<close>

definition scene_two_points :: aiScene where
  "scene_two_points =
     scene_of
       [mesh_of [aiVector3D 1 2 3, aiVector3D (- 1) 5 0]
                [aiVector3D 0 1 0, aiVector3D 3 (- 4) 0]
                []]"


text \<open>One triangle and one quad face, over four vertices.\<close>

definition scene_triangle_quad :: aiScene where
  "scene_triangle_quad =
     scene_of
       [mesh_of [aiVector3D 0 0 0, aiVector3D 1 0 0, aiVector3D 1 1 0, aiVector3D 0 1 0]
                [aiVector3D 0 0 1, aiVector3D 0 0 1, aiVector3D 0 0 1, aiVector3D 0 0 1]
                [[3, 1, 2], [0, 1, 2, 3]]]"

section \<open>Properties\<close>

lemmas VertexLayout_defs =
  VERTEX_LAYOUT_POSITION_def VERTEX_LAYOUT_NORMAL_def VERTEX_LAYOUT_COLOR_def
  VERTEX_LAYOUT_UV_def VERTEX_LAYOUT_TANGENT_def VERTEX_LAYOUT_BITANGENT_def
  VERTEX_LAYOUT_DUMMY_FLOAT_def VERTEX_LAYOUT_DUMMY_VEC4_def

subsection \<open>Float rounding\<close>



lemma round_even_of_int [simp]: "round_even (of_int m) = m"
  by (simp add: round_even_def)

lemma round_even_uminus: "round_even (- q) = - round_even q"
proof (cases "q = of_int \<lfloor>q\<rfloor>")
  case True
  then obtain m where "q = of_int m" ..
  then show ?thesis by (simp flip: of_int_minus)
next
  case False
  then have d: "0 < q - of_int \<lfloor>q\<rfloor>" "q - of_int \<lfloor>q\<rfloor> < 1"
    by linarith+
  have f: "\<lfloor>- q\<rfloor> = - \<lfloor>q\<rfloor> - 1"
    using d by (intro floor_unique) simp_all
  show ?thesis
    unfolding round_even_def Let_def f using d by (auto simp: field_simps)
qed



text \<open>Rounding is odd: the float product of \<open>- a\<close> and \<open>b\<close> is minus that of \<open>a\<close> and \<open>b\<close>.\<close>

lemma fl_uminus: "fl (- r) = - fl r"
  by (simp add: fl_def ulp_exponent_def round_even_uminus)

text \<open>An integer of at most 24 bits is a float: rounding leaves it as it is.\<close>

lemma fl_of_int:
  assumes "\<bar>n\<bar> < 16777216"
  shows "fl (of_int n) = of_int n"
proof (cases "n = 0")
  case True
  then show ?thesis by (simp add: fl_def)
next
  case False
  define k where "k = \<lfloor>log 2 \<bar>real_of_int n\<bar>\<rfloor>"
  have pos: "0 < \<bar>real_of_int n\<bar>" using False by simp
  have b: "2 powr k \<le> \<bar>real_of_int n\<bar>" "\<bar>real_of_int n\<bar> < 2 powr (k + 1)"
    using floor_log_eq_powr_iff [of "\<bar>real_of_int n\<bar>" 2 k] pos by (simp_all add: k_def)
  have "1 \<le> \<bar>real_of_int n\<bar>" using False by (simp flip: of_int_abs)
  then have "(2::real) powr 0 < 2 powr (of_int k + 1)" using b(2) by simp
  then have "(0::real) < of_int k + 1"
    using powr_less_cancel_iff [of 2 0 "of_int k + 1"] by simp
  then have k0: "0 \<le> k" by linarith
  have "\<bar>real_of_int n\<bar> < 2 powr 24" using assms by (simp flip: of_int_abs)
  then have "(2::real) powr (of_int k) < 2 powr 24" using b(1) by linarith
  then have "real_of_int k < 24"
    using powr_less_cancel_iff [of 2 "of_int k" 24] by simp
  then have k23: "k \<le> 23" by linarith
  have e: "ulp_exponent (of_int n) = k - 23"
    using k0 by (simp add: ulp_exponent_def k_def [symmetric])
  have q: "real_of_int n / pow2 (k - 23) = of_int (n * 2 ^ nat (23 - k))"
    using k23 by (simp add: pow2_def divide_inverse)
  have "of_int (n * 2 ^ nat (23 - k)) * pow2 (k - 23) = real_of_int n"
    using k23 by (simp add: pow2_def)
  then show ?thesis
    using False by (simp add: fl_def e q del: of_int_mult of_int_power)
qed

lemma fl_0 [simp]: "fl 0 = 0"
  by (simp add: fl_def)

lemma fl_1 [simp]: "fl 1 = 1"
  using fl_of_int [of 1] by simp

lemma fl_minus_1 [simp]: "fl (- 1) = - 1"
  using fl_of_int [of "- 1"] by simp

lemma fl_numeral: "numeral w < (16777216::int) \<Longrightarrow> fl (numeral w) = numeral w"
  using fl_of_int [of "numeral w"] by simp

lemma fl_neg_numeral: "numeral w < (16777216::int) \<Longrightarrow> fl (- numeral w) = - numeral w"
  using fl_of_int [of "- numeral w"] by simp

subsection \<open>The stride\<close>

lemma vertexSize_loop_append:
  "vertexSize_loop (xs @ ys) vSize = vertexSize_loop ys (vertexSize_loop xs vSize)"
  by (induction xs arbitrary: vSize) simp_all

text \<open>
  C2. The specification's stride counts 1 component for \<^verbatim>\<open>VERTEX_LAYOUT_DUMMY_FLOAT\<close> and 4
  for \<^verbatim>\<open>VERTEX_LAYOUT_DUMMY_VEC4\<close>. \<open>vertexSize\<close> has no case for either: both fall in
  the \<^verbatim>\<open>default\<close> arm and count 3 components, so the stride of \<open>[DUMMY_FLOAT]\<close> is 12
  bytes where the specification's sum is 4, and the stride of \<open>[DUMMY_VEC4]\<close> is 12 where
  the sum is 16.
\<close>

theorem vertexSize_pad_kinds_default_arm:
  "vertexSize [VERTEX_LAYOUT_DUMMY_FLOAT] = 12
   \<and> spec_stride [VERTEX_LAYOUT_DUMMY_FLOAT] = 4
   \<and> vertexSize [VERTEX_LAYOUT_DUMMY_VEC4] = 12
   \<and> spec_stride [VERTEX_LAYOUT_DUMMY_VEC4] = 16"
  by (simp add: vertexSize_def spec_stride_def spec_components_def sizeof_float_def
      VertexLayout_defs)

subsection \<open>Loops over an index\<close>

text \<open>A loop over the indices of a vector that reads only element \<open>i\<close> is a loop over the elements.\<close>

lemma fold_nth_upt: "fold (\<lambda>i. f (xs ! i)) [0..<length xs] a = fold f xs a"
proof -
  have "fold f (map (\<lambda>i. xs ! i) [0..<length xs]) a = fold (\<lambda>i. f (xs ! i)) [0..<length xs] a"
    by (simp add: fold_map comp_def)
  then show ?thesis by (simp add: map_nth)
qed

subsection \<open>The shape of the vertex stream\<close>

lemma if_append: "(if c then b @ x else b) = b @ (if c then x else [])"
  by simp

lemma push_layoutDetail_append:
  "push_layoutDetail v scale k vb = vb @ layoutDetail_floats v scale k"
  by (simp only: push_layoutDetail_def layoutDetail_floats_def Let_def if_append append_assoc
      append_Nil)

lemma pack_vertex_append:
  "pack_vertex scale layout v vb = vb @ concat (map (layoutDetail_floats v scale) layout)"
  unfolding pack_vertex_def
proof (induction layout arbitrary: vb)
  case Nil
  then show ?case by simp
next
  case (Cons k ks)
  show ?case by (simp add: Cons.IH) (simp add: push_layoutDetail_append)
qed

lemma pack_entry_append:
  "pack_entry scale layout e vb =
     vb @ concat (map (\<lambda>v. concat (map (layoutDetail_floats v scale) layout)) (Vertices e))"
proof -
  have "fold (pack_vertex scale layout) vs vb =
          vb @ concat (map (\<lambda>v. concat (map (layoutDetail_floats v scale) layout)) vs)" for vs
    by (induction vs arbitrary: vb) (simp_all add: pack_vertex_append)
  then show ?thesis
    unfolding pack_entry_def by (simp add: fold_nth_upt)
qed

lemma pack_vertices_concat:
  "pack_vertices entries layout scale =
     concat (map (\<lambda>e. concat (map (\<lambda>v. concat (map (layoutDetail_floats v scale) layout))
       (Vertices e))) entries)"
proof -
  have "fold (pack_entry scale layout) es vb =
          vb @ concat (map (\<lambda>e. concat (map (\<lambda>v. concat (map (layoutDetail_floats v scale) layout))
            (Vertices e))) es)" for es vb
    by (induction es arbitrary: vb) (simp_all add: pack_entry_append)
  then show ?thesis
    unfolding pack_vertices_def by (simp add: fold_nth_upt)
qed

subsection \<open>The memory type\<close>

lemma getMemoryType_loop_zero: "getMemoryType_loop dmp i 0 properties = 0"
proof (induction "32 - i" arbitrary: i)
  case 0
  then show ?case by (subst getMemoryType_loop.simps) simp
next
  case (Suc n)
  then have "getMemoryType_loop dmp (Suc i) 0 properties = 0" by simp
  then show ?case by (subst getMemoryType_loop.simps) simp
qed

lemma and_1_iff_bit: "((drop_bit i (w :: uint32_t)) AND 1 = 1) = bit w i"
  by (simp add: and_one_eq bit_iff_odd_drop_bit odd_iff_mod_2_eq_one)

text \<open>One turn of the loop, in terms of the mask the caller passed.\<close>

lemma getMemoryType_loop_step:
  "i < 32 \<Longrightarrow>
   getMemoryType_loop dmp i (drop_bit i typeBits) properties =
     (if qualifies dmp typeBits properties i then of_nat i
      else getMemoryType_loop dmp (Suc i) (drop_bit (Suc i) typeBits) properties)"
  by (subst getMemoryType_loop.simps)
     (simp add: and_1_iff_bit qualifies_def del: getMemoryType_loop.simps)

lemma getMemoryType_loop_first:
  assumes "i + k < 32" "qualifies dmp typeBits properties (i + k)"
      "\<forall>j<k. \<not> qualifies dmp typeBits properties (i + j)"
  shows "getMemoryType_loop dmp i (drop_bit i typeBits) properties = of_nat (i + k)"
  using assms
proof (induction k arbitrary: i)
  case 0
  then show ?case by (simp add: getMemoryType_loop_step del: getMemoryType_loop.simps)
next
  case (Suc k)
  have nq: "\<not> qualifies dmp typeBits properties i"
    using Suc.prems(3) by (metis add.right_neutral zero_less_Suc)
  have rest: "\<forall>j<k. \<not> qualifies dmp typeBits properties (Suc i + j)"
    using Suc.prems(3) by (metis Suc_less_eq add_Suc_shift)
  have "getMemoryType_loop dmp (Suc i) (drop_bit (Suc i) typeBits) properties = of_nat (Suc i + k)"
    using Suc.prems(1,2) rest by (intro Suc.IH) simp_all
  moreover have "i < 32" using Suc.prems(1) by simp
  ultimately show ?case
    using nq by (simp add: getMemoryType_loop_step del: getMemoryType_loop.simps)
qed

text \<open>When an index qualifies, the first one that does is returned.\<close>

lemma getMemoryType_first:
  assumes "k < 32" "qualifies dmp typeBits properties k"
      "\<forall>j<k. \<not> qualifies dmp typeBits properties j"
  shows "getMemoryType dmp typeBits properties = of_nat k"
  using getMemoryType_loop_first [of 0 k dmp typeBits properties] assms
  by (simp add: getMemoryType_def del: getMemoryType_loop.simps)

lemma getMemoryType_loop_none:
  assumes "\<forall>j<32. i \<le> j \<longrightarrow> \<not> qualifies dmp typeBits properties j"
  shows "getMemoryType_loop dmp i (drop_bit i typeBits) properties = 0"
  using assms
proof (induction "32 - i" arbitrary: i)
  case 0
  then show ?case by (subst getMemoryType_loop.simps) simp
next
  case (Suc n)
  then have "i < 32" by simp
  moreover have "\<not> qualifies dmp typeBits properties i" using Suc.prems \<open>i < 32\<close> by simp
  moreover have "getMemoryType_loop dmp (Suc i) (drop_bit (Suc i) typeBits) properties = 0"
    using Suc by (intro Suc.hyps(1)) auto
  ultimately show ?case by (simp add: getMemoryType_loop_step del: getMemoryType_loop.simps)
qed

text \<open>When no index qualifies, the value is 0, the index of the first memory type.\<close>

lemma getMemoryType_none:
  assumes "\<forall>j<32. \<not> qualifies dmp typeBits properties j"
  shows "getMemoryType dmp typeBits properties = 0"
  using getMemoryType_loop_none [of 0 dmp typeBits properties] assms
  by (simp add: getMemoryType_def del: getMemoryType_loop.simps)

text \<open>
  C3. The scan goes from index 0 upward, tests \<^verbatim>\<open>typeBits & 1\<close> and the property flags, and
  returns the first index that qualifies (\<open>getMemoryType_first\<close>). When none qualifies the
  claim asks for an abort; the source has \<^verbatim>\<open>// todo : throw error\<close> and \<^verbatim>\<open>return 0;\<close>
  there. So an empty mask gives index 0, and a device whose 32 memory types are all
  device-local only, asked for host-visible memory with every bit of the mask set, gives
  index 0 too, a type that does not qualify.
\<close>

theorem getMemoryType_no_match_returns_0:
  "getMemoryType deviceMemoryProperties 0 properties = 0
   \<and> getMemoryType
        \<lparr>memoryTypeCount = 1, memoryTypes = (\<lambda>i. \<lparr>propertyFlags = eDeviceLocal, heapIndex = 0\<rparr>)\<rparr>
        0xFFFFFFFF eHostVisible = 0
   \<and> \<not> qualifies
        \<lparr>memoryTypeCount = 1, memoryTypes = (\<lambda>i. \<lparr>propertyFlags = eDeviceLocal, heapIndex = 0\<rparr>)\<rparr>
        0xFFFFFFFF eHostVisible 0"
proof -
  have "getMemoryType deviceMemoryProperties 0 properties = 0"
    by (simp add: getMemoryType_def getMemoryType_loop_zero del: getMemoryType_loop.simps)
  moreover have "getMemoryType
        \<lparr>memoryTypeCount = 1, memoryTypes = (\<lambda>i. \<lparr>propertyFlags = eDeviceLocal, heapIndex = 0\<rparr>)\<rparr>
        0xFFFFFFFF eHostVisible = 0"
    by (rule getMemoryType_none) (simp add: qualifies_def eDeviceLocal_def eHostVisible_def)
  ultimately show ?thesis
    by (simp add: qualifies_def eDeviceLocal_def eHostVisible_def)
qed

subsection \<open>Writing to one entry\<close>

lemma update_entry_comp:
  "update_entry i f (update_entry i g s) = update_entry i (\<lambda>e. f (g e)) s"
  by (cases "i < length (m_Entries s)") (simp_all add: update_entry_def list_update_beyond)

lemma update_entry_id: "update_entry i (\<lambda>e. e) s = s"
  by (simp add: update_entry_def)

lemma update_entry_dim:
  "update_entry i f (s\<lparr>dim := d\<rparr>) = (update_entry i f s)\<lparr>dim := d\<rparr>"
  by (simp add: update_entry_def)

lemma dim_update_entry [simp]: "dim (update_entry i f s) = dim s"
  by (simp add: update_entry_def)

lemma numVertices_update_entry [simp]: "numVertices (update_entry i f s) = numVertices s"
  by (simp add: update_entry_def)

lemma length_update_entry [simp]: "length (m_Entries (update_entry i f s)) = length (m_Entries s)"
  by (simp add: update_entry_def)

subsection \<open>The loops of InitMesh\<close>

lemma vertex_loop:
  "fold (InitMesh_vertex index paiMesh pColor) js s =
     update_entry index (\<lambda>e. e\<lparr>Vertices := Vertices e @ map (InitMesh_v paiMesh pColor) js\<rparr>)
       (s\<lparr>dim := fold (\<lambda>i. InitMesh_dim (mVertices paiMesh ! i)) js (dim s)\<rparr>)"
proof (induction js arbitrary: s)
  case Nil
  show ?case by (simp add: update_entry_id)
next
  case (Cons j js)
  show ?case
    by (simp add: Cons.IH)
       (simp add: InitMesh_vertex_def Let_def update_entry_dim update_entry_comp)
qed

lemma face_loop:
  "fold (InitMesh_face index paiMesh) js s =
     update_entry index
       (\<lambda>e. e\<lparr>Indices := Indices e @
          concat (map (\<lambda>i. if mNumIndices (mFaces paiMesh ! i) = 3
                            then mIndices (mFaces paiMesh ! i) else []) js)\<rparr>) s"
proof (induction js arbitrary: s)
  case Nil
  show ?case by (simp add: update_entry_id)
next
  case (Cons j js)
  have three: "length xs = 3 \<Longrightarrow> xs ! 0 # xs ! Suc 0 # xs ! 2 # ys = xs @ ys"
    for xs ys :: "uint32_t list"
    by (cases xs; cases "tl xs"; cases "tl (tl xs)") auto
  show ?case
    by (simp add: Cons.IH)
       (simp add: InitMesh_face_def Let_def update_entry_comp mNumIndices_def three)
qed

lemma concat_map_if_filter:
  "concat (map (\<lambda>x. if P x then h x else []) xs) = concat (map h (filter P xs))"
  by (induction xs) simp_all

lemma map_nth_upt: "map (\<lambda>i. g (xs ! i)) [0..<length xs] = map g xs"
proof -
  have "map g (map ((!) xs) [0..<length xs]) = map g xs"
    by (simp only: map_nth)
  then show ?thesis by (simp add: comp_def)
qed

lemma InitMesh_eq:
  "InitMesh index paiMesh pScene s =
     update_entry index (InitMesh_entry paiMesh pScene) (s\<lparr>dim := InitMesh_dims paiMesh (dim s)\<rparr>)"
proof -
  have faces: "concat (map (\<lambda>i. if mNumIndices (mFaces paiMesh ! i) = 3
                            then mIndices (mFaces paiMesh ! i) else []) [0..<length (mFaces paiMesh)])
      = concat (map mIndices (filter (\<lambda>Face. mNumIndices Face = 3) (mFaces paiMesh)))"
    using map_nth_upt [of "\<lambda>F. if mNumIndices F = 3 then mIndices F else []" "mFaces paiMesh"]
    by (simp add: concat_map_if_filter)
  have dims: "fold (\<lambda>i. InitMesh_dim (mVertices paiMesh ! i)) [0..<length (mVertices paiMesh)] d
      = fold InitMesh_dim (mVertices paiMesh) d" for d
    by (rule fold_nth_upt)
  have entry: "(\<lambda>e. e\<lparr>MaterialIndex := mMaterialIndex paiMesh,
         Vertices := Vertices e @
           map (InitMesh_v paiMesh (InitMesh_pColor paiMesh pScene)) [0..<length (mVertices paiMesh)],
         Indices := Indices e @
           concat (map mIndices (filter (\<lambda>Face. mNumIndices Face = 3) (mFaces paiMesh)))\<rparr>)
       = InitMesh_entry paiMesh pScene"
    by (rule ext) (simp add: InitMesh_entry_def mNumVertices_def)
  have "InitMesh index paiMesh pScene s =
     update_entry index (\<lambda>e. e\<lparr>MaterialIndex := mMaterialIndex paiMesh,
         Vertices := Vertices e @
           map (InitMesh_v paiMesh (InitMesh_pColor paiMesh pScene)) [0..<length (mVertices paiMesh)],
         Indices := Indices e @
           concat (map mIndices (filter (\<lambda>Face. mNumIndices Face = 3) (mFaces paiMesh)))\<rparr>)
       (s\<lparr>dim := InitMesh_dims paiMesh (dim s)\<rparr>)"
    unfolding InitMesh_def Let_def vertex_loop face_loop mNumVertices_def mNumFaces_def
      faces dims
    by (simp add: update_entry_dim update_entry_comp InitMesh_dims_def Let_def)
  then show ?thesis by (simp only: entry)
qed

subsection \<open>The loops of InitFromScene\<close>

lemma meshes_loop:
  "k \<le> length (m_Entries s) \<Longrightarrow>
   fold (\<lambda>i. InitMesh i (ms ! i) pScene) [0..<k] s =
     s\<lparr>m_Entries := map (\<lambda>i. if i < k then InitMesh_entry (ms ! i) pScene (m_Entries s ! i)
                                else m_Entries s ! i) [0..<length (m_Entries s)],
       dim := fold (\<lambda>i. InitMesh_dims (ms ! i)) [0..<k] (dim s)\<rparr>"
proof (induction k)
  case 0
  show ?case by (simp add: map_nth)
next
  case (Suc k)
  then have k: "k < length (m_Entries s)" by simp
  have upd: "(map (\<lambda>i. if i < k then InitMesh_entry (ms ! i) pScene (m_Entries s ! i)
                                else m_Entries s ! i) [0..<length (m_Entries s)])
        [k := InitMesh_entry (ms ! k) pScene (m_Entries s ! k)]
      = map (\<lambda>i. if i < Suc k then InitMesh_entry (ms ! i) pScene (m_Entries s ! i)
                                else m_Entries s ! i) [0..<length (m_Entries s)]"
    using k by (intro nth_equalityI) (auto simp: nth_list_update less_Suc_eq)
  have "fold (\<lambda>i. InitMesh i (ms ! i) pScene) [0..<Suc k] s =
        InitMesh k (ms ! k) pScene (fold (\<lambda>i. InitMesh i (ms ! i) pScene) [0..<k] s)"
    by simp
  also have "\<dots> = InitMesh k (ms ! k) pScene
     (s\<lparr>m_Entries := map (\<lambda>i. if i < k then InitMesh_entry (ms ! i) pScene (m_Entries s ! i)
                                else m_Entries s ! i) [0..<length (m_Entries s)],
       dim := fold (\<lambda>i. InitMesh_dims (ms ! i)) [0..<k] (dim s)\<rparr>)"
    using Suc.IH k by simp
  also have "\<dots> = s\<lparr>m_Entries := map (\<lambda>i. if i < Suc k then InitMesh_entry (ms ! i) pScene (m_Entries s ! i)
                                else m_Entries s ! i) [0..<length (m_Entries s)],
       dim := fold (\<lambda>i. InitMesh_dims (ms ! i)) [0..<Suc k] (dim s)\<rparr>"
    using k by (simp add: InitMesh_eq update_entry_def upd)
  finally show ?case .
qed

lemma counters_loop:
  "k \<le> length (m_Entries s) \<Longrightarrow>
   fold (InitFromScene_counter pScene) [0..<k] s =
     s\<lparr>m_Entries := map (\<lambda>i. if i < k
          then (m_Entries s ! i)\<lparr>vertexBase := numVertices s +
                 of_nat (\<Sum>j<i. mNumVertices (mMeshes pScene ! j))\<rparr>
          else m_Entries s ! i) [0..<length (m_Entries s)],
       numVertices := numVertices s + of_nat (\<Sum>j<k. mNumVertices (mMeshes pScene ! j))\<rparr>"
proof (induction k)
  case 0
  show ?case by (simp add: map_nth)
next
  case (Suc k)
  then have k: "k < length (m_Entries s)" by simp
  let ?g = "\<lambda>k i. if i < k
          then (m_Entries s ! i)\<lparr>vertexBase := numVertices s +
                 of_nat (\<Sum>j<i. mNumVertices (mMeshes pScene ! j))\<rparr>
          else m_Entries s ! i"
  have upd: "(map (?g k) [0..<length (m_Entries s)])
        [k := (m_Entries s ! k)\<lparr>vertexBase := numVertices s +
                 of_nat (\<Sum>j<k. mNumVertices (mMeshes pScene ! j))\<rparr>]
      = map (?g (Suc k)) [0..<length (m_Entries s)]"
    using k by (intro nth_equalityI) (auto simp: nth_list_update less_Suc_eq)
  have "fold (InitFromScene_counter pScene) [0..<Suc k] s =
        InitFromScene_counter pScene k (fold (InitFromScene_counter pScene) [0..<k] s)"
    by simp
  also have "\<dots> = InitFromScene_counter pScene k
     (s\<lparr>m_Entries := map (?g k) [0..<length (m_Entries s)],
       numVertices := numVertices s + of_nat (\<Sum>j<k. mNumVertices (mMeshes pScene ! j))\<rparr>)"
    using Suc.IH k by simp
  also have "\<dots> = s\<lparr>m_Entries := map (?g (Suc k)) [0..<length (m_Entries s)],
       numVertices := numVertices s + of_nat (\<Sum>j<Suc k. mNumVertices (mMeshes pScene ! j))\<rparr>"
    using k by (simp add: InitFromScene_counter_def update_entry_def upd Let_def add.assoc
        del: of_nat_sum)
  finally show ?case .
qed

lemma length_resize [simp]: "length (resize n es) = n"
  by (simp add: resize_def)

lemma resize_Nil: "i < n \<Longrightarrow> resize n [] ! i = MeshEntry_init"
  by (simp add: resize_def)

lemma InitFromScene_counters_eq:
  "InitFromScene_counters pScene s =
     s\<lparr>m_Entries := map (\<lambda>i. (resize (mNumMeshes pScene) (m_Entries s) ! i)
             \<lparr>vertexBase := numVertices s + of_nat (\<Sum>j<i. mNumVertices (mMeshes pScene ! j))\<rparr>)
           [0..<mNumMeshes pScene],
       numVertices := numVertices s +
          of_nat (\<Sum>j<mNumMeshes pScene. mNumVertices (mMeshes pScene ! j))\<rparr>"
proof -
  let ?s1 = "s\<lparr>m_Entries := resize (mNumMeshes pScene) (m_Entries s)\<rparr>"
  have "fold (InitFromScene_counter pScene) [0..<mNumMeshes pScene] ?s1 =
     ?s1\<lparr>m_Entries := map (\<lambda>i. if i < mNumMeshes pScene
          then (m_Entries ?s1 ! i)\<lparr>vertexBase := numVertices ?s1 +
                 of_nat (\<Sum>j<i. mNumVertices (mMeshes pScene ! j))\<rparr>
          else m_Entries ?s1 ! i) [0..<length (m_Entries ?s1)],
       numVertices := numVertices ?s1 +
          of_nat (\<Sum>j<mNumMeshes pScene. mNumVertices (mMeshes pScene ! j))\<rparr>"
    by (rule counters_loop) simp
  then show ?thesis
    by (simp add: InitFromScene_counters_def Let_def del: of_nat_sum cong: map_cong)
qed

lemma InitFromScene_eq:
  "snd (InitFromScene pScene s) =
     s\<lparr>m_Entries := map (\<lambda>i. InitMesh_entry (mMeshes pScene ! i) pScene
             ((resize (mNumMeshes pScene) (m_Entries s) ! i)
               \<lparr>vertexBase := numVertices s +
                  of_nat (\<Sum>j<i. mNumVertices (mMeshes pScene ! j))\<rparr>))
           [0..<mNumMeshes pScene],
       numVertices := numVertices s +
          of_nat (\<Sum>j<mNumMeshes pScene. mNumVertices (mMeshes pScene ! j)),
       dim := fold InitMesh_dims (mMeshes pScene) (dim s)\<rparr>"
proof -
  let ?t = "InitFromScene_counters pScene s"
  have len: "length (m_Entries ?t) = mNumMeshes pScene"
    by (simp add: InitFromScene_counters_eq)
  have "InitFromScene_meshes pScene ?t =
     ?t\<lparr>m_Entries := map (\<lambda>i. if i < length (m_Entries ?t)
                 then InitMesh_entry (mMeshes pScene ! i) pScene (m_Entries ?t ! i)
                 else m_Entries ?t ! i) [0..<length (m_Entries ?t)],
       dim := fold (\<lambda>i. InitMesh_dims (mMeshes pScene ! i)) [0..<length (m_Entries ?t)] (dim ?t)\<rparr>"
    unfolding InitFromScene_meshes_def by (rule meshes_loop) simp
  moreover have "fold (\<lambda>i. InitMesh_dims (mMeshes pScene ! i)) [0..<mNumMeshes pScene] d
      = fold InitMesh_dims (mMeshes pScene) d" for d
    unfolding mNumMeshes_def by (rule fold_nth_upt)
  ultimately show ?thesis
    unfolding len
    by (simp add: InitFromScene_def InitFromScene_counters_eq del: of_nat_sum cong: map_cong)
qed

subsection \<open>Ingestion on a constructed loader\<close>

lemma constructed_loader0: "constructed loader0"
  by (simp add: constructed_def loader0_def)

lemma InitFromScene_constructed:
  assumes "constructed s"
  shows "snd (InitFromScene pScene s) =
     s\<lparr>m_Entries := map (\<lambda>i. InitMesh_entry (mMeshes pScene ! i) pScene
             (MeshEntry_init
               \<lparr>vertexBase := of_nat (\<Sum>j<i. mNumVertices (mMeshes pScene ! j))\<rparr>))
           [0..<mNumMeshes pScene],
       numVertices := of_nat (\<Sum>j<mNumMeshes pScene. mNumVertices (mMeshes pScene ! j)),
       dim := fold InitMesh_dims (mMeshes pScene) (dim s)\<rparr>"
  using assms
  by (simp add: InitFromScene_eq constructed_def resize_Nil del: of_nat_sum cong: map_cong)

text \<open>
  C6. On a loader as constructed, after \<^verbatim>\<open>InitFromScene\<close> entry \<open>i\<close> has for \<open>vertexBase\<close> the
  sum of the vertex counts of the meshes before it (the empty sum, 0, for the first). The
  value is there after the first loop already, when no vertex has been pushed yet, and the
  second loop keeps it. The sum is a \<^verbatim>\<open>uint32_t\<close>; read as a number it is the sum itself
  when that is below \<open>2\<^sup>3\<^sup>2\<close>.
\<close>

theorem vertexBase_is_prefix_sum:
  assumes "constructed s" and "i < mNumMeshes pScene"
  shows "length (m_Entries (InitFromScene_counters pScene s)) = mNumMeshes pScene
    \<and> vertexBase (m_Entries (InitFromScene_counters pScene s) ! i) =
         of_nat (\<Sum>j<i. mNumVertices (mMeshes pScene ! j))
    \<and> Vertices (m_Entries (InitFromScene_counters pScene s) ! i) = []
    \<and> length (m_Entries (snd (InitFromScene pScene s))) = mNumMeshes pScene
    \<and> vertexBase (m_Entries (snd (InitFromScene pScene s)) ! i) =
         of_nat (\<Sum>j<i. mNumVertices (mMeshes pScene ! j))
    \<and> ((\<Sum>j<i. mNumVertices (mMeshes pScene ! j)) < 2 ^ 32 \<longrightarrow>
         unat (vertexBase (m_Entries (snd (InitFromScene pScene s)) ! i)) =
           (\<Sum>j<i. mNumVertices (mMeshes pScene ! j)))"
proof -
  have c: "m_Entries s = []" "numVertices s = 0"
    using assms(1) by (simp_all add: constructed_def)
  have 1: "length (m_Entries (InitFromScene_counters pScene s)) = mNumMeshes pScene"
    by (simp add: InitFromScene_counters_eq)
  have 2: "vertexBase (m_Entries (InitFromScene_counters pScene s) ! i) =
         of_nat (\<Sum>j<i. mNumVertices (mMeshes pScene ! j))"
    using assms(2) c by (simp add: InitFromScene_counters_eq del: of_nat_sum)
  have 3: "Vertices (m_Entries (InitFromScene_counters pScene s) ! i) = []"
    using assms(2) c
    by (simp add: InitFromScene_counters_eq resize_Nil MeshEntry_init_def del: of_nat_sum)
  have 4: "length (m_Entries (snd (InitFromScene pScene s))) = mNumMeshes pScene"
    by (simp add: InitFromScene_eq)
  have 5: "vertexBase (m_Entries (snd (InitFromScene pScene s)) ! i) =
         of_nat (\<Sum>j<i. mNumVertices (mMeshes pScene ! j))"
    using assms(2) c by (simp add: InitFromScene_eq InitMesh_entry_def del: of_nat_sum)
  have 6: "unat (of_nat n :: uint32_t) = n" if "n < 2 ^ 32" for n
    using that by (simp add: unat_of_nat)
  show ?thesis
    using 1 2 3 4 5 6 by (simp del: of_nat_sum)
qed

theorem vertexBase_is_prefix_sum_witness:
  "constructed loader0 \<and> 1 < mNumMeshes scene_quad_triangle
   \<and> vertexBase (m_Entries (InitFromScene_counters scene_quad_triangle loader0) ! 1) = 4
   \<and> Vertices (m_Entries (InitFromScene_counters scene_quad_triangle loader0) ! 1) = []
   \<and> vertexBase (m_Entries (snd (InitFromScene scene_quad_triangle loader0)) ! 1) = 4
   \<and> unat (vertexBase (m_Entries (snd (InitFromScene scene_quad_triangle loader0)) ! 1)) = 4"
proof -
  have n: "1 < mNumMeshes scene_quad_triangle"
    by (simp add: mNumMeshes_def scene_quad_triangle_def scene_of_def)
  have s: "mNumVertices (mMeshes scene_quad_triangle ! 0) = 4"
    by (simp add: mNumVertices_def scene_quad_triangle_def scene_of_def mesh_of_def)
  show ?thesis
    using vertexBase_is_prefix_sum [OF constructed_loader0 n] constructed_loader0 n
    by (simp add: s)
qed

subsection \<open>The shape of the index stream\<close>

lemma merge_entry_eq:
  "merge_entry e ib = ib @ map (\<lambda>k. k + of_nat (length ib)) (Indices e)"
proof -
  have "fold (\<lambda>k b. b @ [k + c]) xs b = b @ map (\<lambda>k. k + c) xs" for xs b and c :: uint32_t
    by (induction xs arbitrary: b) simp_all
  then show ?thesis
    unfolding merge_entry_def Let_def
    by (simp add: fold_nth_upt [of "\<lambda>k b. b @ [k + of_nat (length ib)]"])
qed

lemma merge_indices_fold: "merge_indices entries = fold merge_entry entries []"
  unfolding merge_indices_def by (rule fold_nth_upt)

lemma length_fold_merge:
  "length (fold merge_entry es ib) = length ib + sum_list (map (\<lambda>e. length (Indices e)) es)"
  by (induction es arbitrary: ib) (simp_all add: merge_entry_eq)

lemma fold_merge_prefix: "take (length ib) (fold merge_entry es ib) = ib"
proof (induction es arbitrary: ib)
  case Nil
  show ?case by simp
next
  case (Cons e es)
  have "take (length ib) (fold merge_entry es (merge_entry e ib)) =
        take (length ib) (take (length (merge_entry e ib)) (fold merge_entry es (merge_entry e ib)))"
    by (simp add: merge_entry_eq min_def)
  then show ?case by (simp add: Cons.IH) (simp add: merge_entry_eq)
qed

text \<open>What the index loops compute: the offset of entry m is the number of indices pushed before.\<close>

lemma merge_indices_nth:
  assumes "m < length es" and "i < length (Indices (es ! m))"
  shows "merge_indices es ! (sum_list (map (\<lambda>e. length (Indices e)) (take m es)) + i) =
         Indices (es ! m) ! i + of_nat (sum_list (map (\<lambda>e. length (Indices e)) (take m es)))"
proof -
  let ?P = "fold merge_entry (take m es) []"
  let ?Q = "merge_entry (es ! m) ?P"
  have lenP: "length ?P = sum_list (map (\<lambda>e. length (Indices e)) (take m es))"
    by (simp add: length_fold_merge)
  have split: "es = take m es @ es ! m # drop (Suc m) es"
    using assms(1) by (simp add: id_take_nth_drop)
  have "merge_indices es = fold merge_entry (take m es @ es ! m # drop (Suc m) es) []"
    using split by (simp add: merge_indices_fold)
  then have all: "merge_indices es = fold merge_entry (drop (Suc m) es) ?Q"
    by simp
  have inQ: "length ?P + i < length ?Q"
    using assms(2) by (simp add: merge_entry_eq)
  have "merge_indices es ! (length ?P + i) = take (length ?Q) (merge_indices es) ! (length ?P + i)"
    using inQ by simp
  also have "\<dots> = ?Q ! (length ?P + i)"
    unfolding all by (simp only: fold_merge_prefix)
  also have "\<dots> = Indices (es ! m) ! i + of_nat (length ?P)"
    using assms(2) by (simp add: merge_entry_eq nth_append)
  finally show ?thesis by (simp only: lenP)
qed

subsection \<open>The offset of an entry in the index stream\<close>

lemma indexBuffer_createBuffers [simp]:
  "indexBuffer (createBuffers device dmp layout scale useStaging copyCmd copyQueue s) =
     merge_indices (m_Entries s)"
  by (simp add: createBuffers_def Let_def)

lemma vertexBuffer_createBuffers [simp]:
  "vertexBuffer (createBuffers device dmp layout scale useStaging copyCmd copyQueue s) =
     pack_vertices (m_Entries s) layout scale"
  by (simp add: createBuffers_def Let_def)

lemma Indices_InitMesh_entry [simp]:
  "Indices (InitMesh_entry paiMesh pScene e) =
     Indices e @ concat (map mIndices (filter (\<lambda>Face. mNumIndices Face = 3) (mFaces paiMesh)))"
  by (simp add: InitMesh_entry_def)

lemma vertexBase_InitMesh_entry [simp]:
  "vertexBase (InitMesh_entry paiMesh pScene e) = vertexBase e"
  by (simp add: InitMesh_entry_def)

lemma Vertices_InitMesh_entry [simp]:
  "Vertices (InitMesh_entry paiMesh pScene e) =
     Vertices e @ map (InitMesh_v paiMesh (InitMesh_pColor paiMesh pScene))
       [0..<mNumVertices paiMesh]"
  by (simp add: InitMesh_entry_def)

lemma ingested_quad_triangle:
  "map Indices (m_Entries (snd (InitFromScene scene_quad_triangle loader0))) =
     [[0, 1, 2, 2, 3, 0], [0, 1, 2]]
   \<and> map vertexBase (m_Entries (snd (InitFromScene scene_quad_triangle loader0))) = [0, 4]
   \<and> numVertices (snd (InitFromScene scene_quad_triangle loader0)) = 7"
  by (simp add: InitFromScene_constructed [OF constructed_loader0] scene_quad_triangle_def
      scene_of_def mesh_of_def mNumMeshes_def mNumVertices_def mNumIndices_def MeshEntry_init_def
      numeral_2_eq_2 lessThan_Suc)

lemma merge_indices_map:
  "merge_indices es =
     fold (\<lambda>xs ib. ib @ map (\<lambda>k. k + of_nat (length ib)) xs) (map Indices es) []"
proof -
  have "merge_entry = (\<lambda>e ib. ib @ map (\<lambda>k. k + of_nat (length ib)) (Indices e))"
    by (intro ext) (rule merge_entry_eq)
  then show ?thesis
    by (simp add: merge_indices_fold fold_map comp_def)
qed

text \<open>
  C1. The claim takes the offset added to the indices of entry \<open>i\<close> to be \<open>vertexBase\<close> of
  that entry, the number of vertices before it. The loop of \<^verbatim>\<open>createBuffers\<close> adds
  \<^verbatim>\<open>indexBase = indexBuffer.size()\<close>, the number of indices before it
  (\<open>merge_indices_nth\<close>). The two differ as soon as an entry shares vertices between
  faces: the first mesh of \<open>scene_quad_triangle\<close> has 4 vertices and 6 indices, so the
  triangle of the second mesh, whose \<open>vertexBase\<close> is 4, is written as 6, 7, 8 and not as
  4, 5, 6, while the vertex stream holds 7 vertices.
\<close>

theorem index_offset_is_index_count:
  "indexBuffer (createBuffers device deviceMemoryProperties layout scale useStaging copyCmd
      copyQueue (snd (InitFromScene scene_quad_triangle loader0))) =
     [0, 1, 2, 2, 3, 0, 6, 7, 8]
   \<and> map Indices (m_Entries (snd (InitFromScene scene_quad_triangle loader0))) =
        [[0, 1, 2, 2, 3, 0], [0, 1, 2]]
   \<and> map vertexBase (m_Entries (snd (InitFromScene scene_quad_triangle loader0))) = [0, 4]
   \<and> numVertices (snd (InitFromScene scene_quad_triangle loader0)) = 7"
  using ingested_quad_triangle by (simp add: merge_indices_map)

subsection \<open>Faces that are no triangle\<close>

lemma length_concat_triangles:
  "length (concat (map mIndices (filter (\<lambda>Face. mNumIndices Face = 3) fs))) =
     3 * length (filter (\<lambda>Face. mNumIndices Face = 3) fs)"
  by (induction fs) (simp_all add: mNumIndices_def)

lemma length_merge_indices:
  "length (merge_indices es) = sum_list (map (\<lambda>e. length (Indices e)) es)"
  by (simp add: merge_indices_fold length_fold_merge)

text \<open>
  C9. On a loader as constructed, \<^verbatim>\<open>InitFromScene\<close> returns \<^verbatim>\<open>true\<close> whatever the faces are,
  and the index list of entry \<open>m\<close> is the concatenation, in order, of the index lists of
  the faces of mesh \<open>m\<close> that have exactly 3 indices: such a face gives all its indices,
  any other face gives none. The index stream of \<^verbatim>\<open>createBuffers\<close> then has 3 values for
  each face of 3 indices of the scene and no other value.
\<close>

theorem only_triangles_contribute:
  assumes "constructed s" and "m < mNumMeshes pScene"
  shows "fst (InitFromScene pScene s)
    \<and> Indices (m_Entries (snd (InitFromScene pScene s)) ! m) =
        concat (map mIndices
          (filter (\<lambda>Face. mNumIndices Face = 3) (mFaces (mMeshes pScene ! m))))
    \<and> length (indexBuffer (createBuffers device deviceMemoryProperties layout scale useStaging
          copyCmd copyQueue (snd (InitFromScene pScene s)))) =
        3 * sum_list (map (\<lambda>paiMesh. length (filter (\<lambda>Face. mNumIndices Face = 3)
                (mFaces paiMesh))) (mMeshes pScene))"
proof -
  have 1: "fst (InitFromScene pScene s)"
    by (simp add: InitFromScene_def)
  have 2: "Indices (m_Entries (snd (InitFromScene pScene s)) ! m) =
        concat (map mIndices
          (filter (\<lambda>Face. mNumIndices Face = 3) (mFaces (mMeshes pScene ! m))))"
    using assms(2)
    by (simp add: InitFromScene_constructed [OF assms(1)] MeshEntry_init_def del: of_nat_sum)
  have "map (\<lambda>e. length (Indices e)) (m_Entries (snd (InitFromScene pScene s))) =
        map (\<lambda>i. (\<lambda>paiMesh. 3 * length (filter (\<lambda>Face. mNumIndices Face = 3) (mFaces paiMesh)))
               (mMeshes pScene ! i)) [0..<length (mMeshes pScene)]"
    by (simp add: InitFromScene_constructed [OF assms(1)] MeshEntry_init_def
        length_concat_triangles mNumMeshes_def comp_def del: of_nat_sum)
  also have "\<dots> = map (\<lambda>paiMesh. 3 * length (filter (\<lambda>Face. mNumIndices Face = 3)
                (mFaces paiMesh))) (mMeshes pScene)"
    by (rule map_nth_upt)
  finally have 3: "length (indexBuffer (createBuffers device deviceMemoryProperties layout scale
          useStaging copyCmd copyQueue (snd (InitFromScene pScene s)))) =
        3 * sum_list (map (\<lambda>paiMesh. length (filter (\<lambda>Face. mNumIndices Face = 3)
                (mFaces paiMesh))) (mMeshes pScene))"
    by (simp add: length_merge_indices sum_list_const_mult)
  show ?thesis using 1 2 3 by simp
qed

theorem only_triangles_contribute_witness:
  "constructed loader0 \<and> 0 < mNumMeshes scene_triangle_quad
   \<and> map mIndices (mFaces (mMeshes scene_triangle_quad ! 0)) = [[3, 1, 2], [0, 1, 2, 3]]
   \<and> fst (InitFromScene scene_triangle_quad loader0)
   \<and> Indices (m_Entries (snd (InitFromScene scene_triangle_quad loader0)) ! 0) = [3, 1, 2]
   \<and> length (indexBuffer (createBuffers device0 deviceMemoryProperties0 [] 1 False False False
         (snd (InitFromScene scene_triangle_quad loader0)))) = 3"
proof -
  have n: "0 < mNumMeshes scene_triangle_quad"
    by (simp add: mNumMeshes_def scene_triangle_quad_def scene_of_def)
  have f: "map mIndices (mFaces (mMeshes scene_triangle_quad ! 0)) = [[3, 1, 2], [0, 1, 2, 3]]"
    by (simp add: scene_triangle_quad_def scene_of_def mesh_of_def)
  have g: "mMeshes scene_triangle_quad = [mMeshes scene_triangle_quad ! 0]"
    by (simp add: scene_triangle_quad_def scene_of_def)
  have h: "filter (\<lambda>Face. mNumIndices Face = 3) (mFaces (mMeshes scene_triangle_quad ! 0)) =
      [\<lparr>mIndices = [3, 1, 2]\<rparr>]"
    by (simp add: scene_triangle_quad_def scene_of_def mesh_of_def mNumIndices_def)
  have "sum_list (map (\<lambda>paiMesh. length (filter (\<lambda>Face. mNumIndices Face = 3)
                (mFaces paiMesh))) (mMeshes scene_triangle_quad)) = 1"
    by (subst g) (simp add: h)
  then show ?thesis
    using only_triangles_contribute [OF constructed_loader0 n, of device0 deviceMemoryProperties0
        "[]" 1 False False False]
      constructed_loader0 n f
    by (simp add: h)
qed

subsection \<open>The bounding box under createBuffers\<close>

lemma loader_createBuffers:
  "loader (createBuffers device dmp layout scale useStaging copyCmd copyQueue s) =
     s\<lparr>dim := \<lparr>dim_min = vec3_times (dim_min (dim s)) scale,
               dim_max = vec3_times (dim_max (dim s)) scale,
               dim_size = vec3_times (dim_size (dim s)) scale\<rparr>\<rparr>"
  by (simp add: createBuffers_def Let_def)

subsection \<open>The bounding box under InitFromScene\<close>

lemma fold_InitMesh_dim:
  "fold InitMesh_dim ps d =
     d\<lparr>dim_max := Vec3 (fold fmax (map ai_x ps) (vec3_x (dim_max d)))
                      (fold fmax (map ai_y ps) (vec3_y (dim_max d)))
                      (fold fmax (map ai_z ps) (vec3_z (dim_max d))),
       dim_min := Vec3 (fold fmin (map ai_x ps) (vec3_x (dim_min d)))
                      (fold fmin (map ai_y ps) (vec3_y (dim_min d)))
                      (fold fmin (map ai_z ps) (vec3_z (dim_min d)))\<rparr>"
proof (induction ps arbitrary: d)
  case Nil
  show ?case by simp
next
  case (Cons p ps)
  show ?case by (simp add: Cons.IH) (simp add: InitMesh_dim_def)
qed

lemma fold_InitMesh_dims_min_max:
  "dim_max (fold InitMesh_dims ms d) =
      Vec3 (fold fmax (map ai_x (concat (map mVertices ms))) (vec3_x (dim_max d)))
           (fold fmax (map ai_y (concat (map mVertices ms))) (vec3_y (dim_max d)))
           (fold fmax (map ai_z (concat (map mVertices ms))) (vec3_z (dim_max d)))
   \<and> dim_min (fold InitMesh_dims ms d) =
      Vec3 (fold fmin (map ai_x (concat (map mVertices ms))) (vec3_x (dim_min d)))
           (fold fmin (map ai_y (concat (map mVertices ms))) (vec3_y (dim_min d)))
           (fold fmin (map ai_z (concat (map mVertices ms))) (vec3_z (dim_min d)))"
proof (induction ms arbitrary: d)
  case Nil
  show ?case by simp
next
  case (Cons m ms)
  show ?case
    by (simp add: Cons.IH) (simp add: InitMesh_dims_def Let_def fold_InitMesh_dim)
qed

lemma fold_InitMesh_dims_size:
  "ms \<noteq> [] \<Longrightarrow>
   dim_size (fold InitMesh_dims ms d) =
     vec3_minus (dim_max (fold InitMesh_dims ms d)) (dim_min (fold InitMesh_dims ms d))"
proof (induction ms rule: rev_induct)
  case Nil
  then show ?case by simp
next
  case (snoc m ms)
  show ?case by (simp add: InitMesh_dims_def Let_def)
qed

lemma dim_InitFromScene: "dim (snd (InitFromScene pScene s)) = fold InitMesh_dims (mMeshes pScene) (dim s)"
  by (simp add: InitFromScene_eq)

text \<open>
  C7. On a loader as constructed and a scene with at least one mesh, \<^verbatim>\<open>dim.min\<close> and
  \<^verbatim>\<open>dim.max\<close> after \<^verbatim>\<open>InitFromScene\<close> are, per axis, the running \<^verbatim>\<open>fmin\<close> and \<^verbatim>\<open>fmax\<close>
  over the positions of all meshes as the scene has them (y not negated, no scale), started
  at \<^verbatim>\<open>FLT_MAX\<close> and \<^verbatim>\<open>-FLT_MAX\<close>, and \<^verbatim>\<open>dim.size\<close> is \<^verbatim>\<open>dim.max - dim.min\<close>;
  \<^verbatim>\<open>createBuffers\<close> then multiplies the three fields by the scale (the difference and the
  products are the float ones, exact on the numbers of the example). For the positions
  (1,2,3) and (-1,5,0): min (-1,2,0), max (1,5,3), size (2,3,3), and after scale 2
  min (-2,4,0), max (2,10,6), size (4,6,6).
\<close>

theorem bounding_box_of_raw_positions:
  assumes "constructed s" and "mMeshes pScene \<noteq> []"
  shows "dim_min (dim (snd (InitFromScene pScene s))) =
      Vec3 (fold fmin (map ai_x (concat (map mVertices (mMeshes pScene)))) FLT_MAX)
           (fold fmin (map ai_y (concat (map mVertices (mMeshes pScene)))) FLT_MAX)
           (fold fmin (map ai_z (concat (map mVertices (mMeshes pScene)))) FLT_MAX)
    \<and> dim_max (dim (snd (InitFromScene pScene s))) =
      Vec3 (fold fmax (map ai_x (concat (map mVertices (mMeshes pScene)))) (- FLT_MAX))
           (fold fmax (map ai_y (concat (map mVertices (mMeshes pScene)))) (- FLT_MAX))
           (fold fmax (map ai_z (concat (map mVertices (mMeshes pScene)))) (- FLT_MAX))
    \<and> dim_size (dim (snd (InitFromScene pScene s))) =
      vec3_minus (dim_max (dim (snd (InitFromScene pScene s))))
                 (dim_min (dim (snd (InitFromScene pScene s))))
    \<and> dim (loader (createBuffers device deviceMemoryProperties layout scale useStaging copyCmd
          copyQueue (snd (InitFromScene pScene s)))) =
      \<lparr>dim_min = vec3_times (dim_min (dim (snd (InitFromScene pScene s)))) scale,
       dim_max = vec3_times (dim_max (dim (snd (InitFromScene pScene s)))) scale,
       dim_size = vec3_times (dim_size (dim (snd (InitFromScene pScene s)))) scale\<rparr>
    \<and> (concat (map mVertices (mMeshes pScene)) = [aiVector3D 1 2 3, aiVector3D (- 1) 5 0] \<longrightarrow>
         dim (snd (InitFromScene pScene s)) =
           \<lparr>dim_min = Vec3 (- 1) 2 0, dim_max = Vec3 1 5 3, dim_size = Vec3 2 3 3\<rparr>
         \<and> dim (loader (createBuffers device deviceMemoryProperties layout 2 useStaging copyCmd
               copyQueue (snd (InitFromScene pScene s)))) =
           \<lparr>dim_min = Vec3 (- 2) 4 0, dim_max = Vec3 2 10 6, dim_size = Vec3 4 6 6\<rparr>)"
proof -
  let ?d = "dim (snd (InitFromScene pScene s))"
  let ?ps = "concat (map mVertices (mMeshes pScene))"
  have c: "dim_min (dim s) = Vec3 FLT_MAX FLT_MAX FLT_MAX"
      "dim_max (dim s) = Vec3 (- FLT_MAX) (- FLT_MAX) (- FLT_MAX)"
    using assms(1) by (simp_all add: constructed_def vec3_of_scalar_def)
  have mn: "dim_min ?d =
      Vec3 (fold fmin (map ai_x ?ps) FLT_MAX) (fold fmin (map ai_y ?ps) FLT_MAX)
           (fold fmin (map ai_z ?ps) FLT_MAX)"
    by (simp add: dim_InitFromScene fold_InitMesh_dims_min_max c)
  have mx: "dim_max ?d =
      Vec3 (fold fmax (map ai_x ?ps) (- FLT_MAX)) (fold fmax (map ai_y ?ps) (- FLT_MAX))
           (fold fmax (map ai_z ?ps) (- FLT_MAX))"
    by (simp add: dim_InitFromScene fold_InitMesh_dims_min_max c)
  have sz: "dim_size ?d = vec3_minus (dim_max ?d) (dim_min ?d)"
    unfolding dim_InitFromScene using assms(2) by (rule fold_InitMesh_dims_size)
  have sc: "dim (loader (createBuffers device deviceMemoryProperties layout k useStaging copyCmd
          copyQueue (snd (InitFromScene pScene s)))) =
      \<lparr>dim_min = vec3_times (dim_min ?d) k, dim_max = vec3_times (dim_max ?d) k,
       dim_size = vec3_times (dim_size ?d) k\<rparr>" for k
    by (simp add: loader_createBuffers)
  have ex: "?d = \<lparr>dim_min = Vec3 (- 1) 2 0, dim_max = Vec3 1 5 3, dim_size = Vec3 2 3 3\<rparr>
         \<and> dim (loader (createBuffers device deviceMemoryProperties layout 2 useStaging copyCmd
               copyQueue (snd (InitFromScene pScene s)))) =
           \<lparr>dim_min = Vec3 (- 2) 4 0, dim_max = Vec3 2 10 6, dim_size = Vec3 4 6 6\<rparr>"
    if ps: "?ps = [aiVector3D 1 2 3, aiVector3D (- 1) 5 0]"
  proof -
    have a: "dim_min ?d = Vec3 (- 1) 2 0"
      unfolding mn ps by (simp add: fmin_def FLT_MAX_def)
    have b: "dim_max ?d = Vec3 1 5 3"
      unfolding mx ps by (simp add: fmax_def FLT_MAX_def)
    have "dim_size ?d = Vec3 2 3 3"
      unfolding sz a b by (simp add: vec3_minus_def fsub_def fl_numeral)
    with a b have "?d = \<lparr>dim_min = Vec3 (- 1) 2 0, dim_max = Vec3 1 5 3, dim_size = Vec3 2 3 3\<rparr>"
      by (cases ?d) simp
    then show ?thesis
      unfolding sc by (simp add: vec3_times_def fmul_def fl_numeral fl_neg_numeral)
  qed
  show ?thesis
    using mn mx sz sc ex by blast
qed

theorem bounding_box_of_raw_positions_witness:
  "constructed loader0 \<and> mMeshes scene_two_points \<noteq> []
   \<and> concat (map mVertices (mMeshes scene_two_points)) = [aiVector3D 1 2 3, aiVector3D (- 1) 5 0]
   \<and> dim (snd (InitFromScene scene_two_points loader0)) =
       \<lparr>dim_min = Vec3 (- 1) 2 0, dim_max = Vec3 1 5 3, dim_size = Vec3 2 3 3\<rparr>
   \<and> dim (loader (createBuffers device0 deviceMemoryProperties0 [VERTEX_LAYOUT_POSITION] 2 False
         False False (snd (InitFromScene scene_two_points loader0)))) =
       \<lparr>dim_min = Vec3 (- 2) 4 0, dim_max = Vec3 2 10 6, dim_size = Vec3 4 6 6\<rparr>"
proof -
  have n: "mMeshes scene_two_points \<noteq> []"
    by (simp add: scene_two_points_def scene_of_def)
  have ps: "concat (map mVertices (mMeshes scene_two_points)) =
      [aiVector3D 1 2 3, aiVector3D (- 1) 5 0]"
    by (simp add: scene_two_points_def scene_of_def mesh_of_def)
  note t = bounding_box_of_raw_positions [OF constructed_loader0 n, of device0
        deviceMemoryProperties0 "[VERTEX_LAYOUT_POSITION]" 2 False False False]
  from t ps have "dim (snd (InitFromScene scene_two_points loader0)) =
       \<lparr>dim_min = Vec3 (- 1) 2 0, dim_max = Vec3 1 5 3, dim_size = Vec3 2 3 3\<rparr>
   \<and> dim (loader (createBuffers device0 deviceMemoryProperties0 [VERTEX_LAYOUT_POSITION] 2 False
         False False (snd (InitFromScene scene_two_points loader0)))) =
       \<lparr>dim_min = Vec3 (- 2) 4 0, dim_max = Vec3 2 10 6, dim_size = Vec3 4 6 6\<rparr>"
    by blast
  with constructed_loader0 n ps show ?thesis
    by blast
qed

subsection \<open>Two calls of createBuffers\<close>




subsection \<open>What each layout element pushes\<close>

lemma layoutDetail_floats_POSITION:
  "layoutDetail_floats v scale VERTEX_LAYOUT_POSITION =
     [fmul (vec3_x (m_pos v)) scale, fmul (vec3_y (m_pos v)) scale,
      fmul (vec3_z (m_pos v)) scale]"
  by (simp add: layoutDetail_floats_def push_layoutDetail_def VertexLayout_defs)

lemma layoutDetail_floats_NORMAL:
  "layoutDetail_floats v scale VERTEX_LAYOUT_NORMAL =
     [vec3_x (m_normal v), - vec3_y (m_normal v), vec3_z (m_normal v)]"
  by (simp add: layoutDetail_floats_def push_layoutDetail_def VertexLayout_defs)

lemma layoutDetail_floats_UV:
  "layoutDetail_floats v scale VERTEX_LAYOUT_UV = [vec2_x (m_tex v), vec2_y (m_tex v)]"
  by (simp add: layoutDetail_floats_def push_layoutDetail_def VertexLayout_defs)

lemma layoutDetail_floats_COLOR:
  "layoutDetail_floats v scale VERTEX_LAYOUT_COLOR =
     [vec3_x (m_color v), vec3_y (m_color v), vec3_z (m_color v)]"
  by (simp add: layoutDetail_floats_def push_layoutDetail_def VertexLayout_defs)

lemma layoutDetail_floats_TANGENT:
  "layoutDetail_floats v scale VERTEX_LAYOUT_TANGENT =
     [vec3_x (m_tangent v), vec3_y (m_tangent v), vec3_z (m_tangent v)]"
  by (simp add: layoutDetail_floats_def push_layoutDetail_def VertexLayout_defs)

lemma layoutDetail_floats_BITANGENT:
  "layoutDetail_floats v scale VERTEX_LAYOUT_BITANGENT =
     [vec3_x (m_binormal v), vec3_y (m_binormal v), vec3_z (m_binormal v)]"
  by (simp add: layoutDetail_floats_def push_layoutDetail_def VertexLayout_defs)

lemma layoutDetail_floats_DUMMY_FLOAT:
  "layoutDetail_floats v scale VERTEX_LAYOUT_DUMMY_FLOAT = [0]"
  by (simp add: layoutDetail_floats_def push_layoutDetail_def VertexLayout_defs)

lemma layoutDetail_floats_DUMMY_VEC4:
  "layoutDetail_floats v scale VERTEX_LAYOUT_DUMMY_VEC4 = [0, 0, 0, 0]"
  by (simp add: layoutDetail_floats_def push_layoutDetail_def VertexLayout_defs)

lemma layoutDetail_floats_other:
  "\<not> is_enumerator k \<Longrightarrow> layoutDetail_floats v scale k = []"
  by (simp add: layoutDetail_floats_def push_layoutDetail_def is_enumerator_def enumerators_def)

subsection \<open>The two sign flips\<close>

lemma m_pos_InitMesh_v:
  "m_pos (InitMesh_v paiMesh pColor i) =
     Vec3 (ai_x (mVertices paiMesh ! i)) (- ai_y (mVertices paiMesh ! i))
          (ai_z (mVertices paiMesh ! i))"
  by (simp add: InitMesh_v_def Vertex_ctor_def Let_def)

lemma m_normal_InitMesh_v:
  "m_normal (InitMesh_v paiMesh pColor i) =
     Vec3 (ai_x (mNormals paiMesh ! i)) (ai_y (mNormals paiMesh ! i))
          (ai_z (mNormals paiMesh ! i))"
  by (simp add: InitMesh_v_def Vertex_ctor_def Let_def)

lemma stored_vertex:
  assumes "constructed s" and "m < mNumMeshes pScene"
    and "i < mNumVertices (mMeshes pScene ! m)"
  shows "Vertices (m_Entries (snd (InitFromScene pScene s)) ! m) ! i =
     InitMesh_v (mMeshes pScene ! m) (InitMesh_pColor (mMeshes pScene ! m) pScene) i"
  using assms(2,3)
  by (simp add: InitFromScene_constructed [OF assms(1)] MeshEntry_init_def del: of_nat_sum)

text \<open>
  C8. For vertex \<open>i\<close> of mesh \<open>m\<close> of a well-formed scene, ingested on a loader as
  constructed: the stored position is the scene's with y negated, the stored normal is the
  scene's, unchanged. Packing pushes the float product of the stored position and the
  scale, so its y is the product of minus the scene's y and the scale, which is minus the
  product of the scene's y and the scale, and pushes the stored normal with its y negated.
  The vertex stream is made of these pushes, entry by entry, vertex by vertex, in the order
  of the layout.
\<close>

theorem position_flipped_at_ingestion_normal_at_packing:
  assumes "constructed s" and "wf_aiScene pScene" and "m < mNumMeshes pScene"
    and "i < mNumVertices (mMeshes pScene ! m)"
  shows "m_pos (Vertices (m_Entries (snd (InitFromScene pScene s)) ! m) ! i) =
      Vec3 (ai_x (mVertices (mMeshes pScene ! m) ! i))
           (- ai_y (mVertices (mMeshes pScene ! m) ! i))
           (ai_z (mVertices (mMeshes pScene ! m) ! i))
    \<and> m_normal (Vertices (m_Entries (snd (InitFromScene pScene s)) ! m) ! i) =
      Vec3 (ai_x (mNormals (mMeshes pScene ! m) ! i))
           (ai_y (mNormals (mMeshes pScene ! m) ! i))
           (ai_z (mNormals (mMeshes pScene ! m) ! i))
    \<and> layoutDetail_floats (Vertices (m_Entries (snd (InitFromScene pScene s)) ! m) ! i) scale
        VERTEX_LAYOUT_POSITION =
      [fl (ai_x (mVertices (mMeshes pScene ! m) ! i) * scale),
       fl (- ai_y (mVertices (mMeshes pScene ! m) ! i) * scale),
       fl (ai_z (mVertices (mMeshes pScene ! m) ! i) * scale)]
    \<and> fl (- ai_y (mVertices (mMeshes pScene ! m) ! i) * scale) =
      - fl (ai_y (mVertices (mMeshes pScene ! m) ! i) * scale)
    \<and> layoutDetail_floats (Vertices (m_Entries (snd (InitFromScene pScene s)) ! m) ! i) scale
        VERTEX_LAYOUT_NORMAL =
      [ai_x (mNormals (mMeshes pScene ! m) ! i),
       - ai_y (mNormals (mMeshes pScene ! m) ! i),
       ai_z (mNormals (mMeshes pScene ! m) ! i)]
    \<and> vertexBuffer (createBuffers device deviceMemoryProperties layout scale useStaging copyCmd
        copyQueue (snd (InitFromScene pScene s))) =
      concat (map (\<lambda>e. concat (map (\<lambda>v. concat (map (layoutDetail_floats v scale) layout))
        (Vertices e))) (m_Entries (snd (InitFromScene pScene s))))"
  by (simp add: stored_vertex [OF assms(1,3,4)] m_pos_InitMesh_v m_normal_InitMesh_v
      layoutDetail_floats_POSITION layoutDetail_floats_NORMAL pack_vertices_concat fmul_def
      fl_uminus)

theorem position_flipped_at_ingestion_normal_at_packing_witness:
  "constructed loader0 \<and> wf_aiScene scene_two_points \<and> 0 < mNumMeshes scene_two_points
   \<and> 1 < mNumVertices (mMeshes scene_two_points ! 0)
   \<and> mVertices (mMeshes scene_two_points ! 0) ! 1 = aiVector3D (- 1) 5 0
   \<and> mNormals (mMeshes scene_two_points ! 0) ! 1 = aiVector3D 3 (- 4) 0
   \<and> m_pos (Vertices (m_Entries (snd (InitFromScene scene_two_points loader0)) ! 0) ! 1) =
        Vec3 (- 1) (- 5) 0
   \<and> m_normal (Vertices (m_Entries (snd (InitFromScene scene_two_points loader0)) ! 0) ! 1) =
        Vec3 3 (- 4) 0
   \<and> layoutDetail_floats
        (Vertices (m_Entries (snd (InitFromScene scene_two_points loader0)) ! 0) ! 1) 2
        VERTEX_LAYOUT_POSITION = [- 2, - 10, 0]
   \<and> layoutDetail_floats
        (Vertices (m_Entries (snd (InitFromScene scene_two_points loader0)) ! 0) ! 1) 2
        VERTEX_LAYOUT_NORMAL = [3, 4, 0]"
proof -
  have w: "wf_aiScene scene_two_points"
    by (simp add: wf_aiScene_def wf_aiMesh_def array_ok_def scene_two_points_def scene_of_def
        mesh_of_def mNumVertices_def)
  have n: "0 < mNumMeshes scene_two_points"
    by (simp add: mNumMeshes_def scene_two_points_def scene_of_def)
  have i: "1 < mNumVertices (mMeshes scene_two_points ! 0)"
    by (simp add: mNumVertices_def scene_two_points_def scene_of_def mesh_of_def)
  have p: "mVertices (mMeshes scene_two_points ! 0) ! 1 = aiVector3D (- 1) 5 0"
    by (simp add: scene_two_points_def scene_of_def mesh_of_def)
  have q: "mNormals (mMeshes scene_two_points ! 0) ! 1 = aiVector3D 3 (- 4) 0"
    by (simp add: scene_two_points_def scene_of_def mesh_of_def)
  note t = position_flipped_at_ingestion_normal_at_packing [OF constructed_loader0 w n i,
      of 2 device0 deviceMemoryProperties0 "[]" False False False]
  show ?thesis
    using t [unfolded p q] constructed_loader0 w n i p q by (simp add: fl_neg_numeral)
qed

subsection \<open>The stride and the length of the vertex stream\<close>

lemma length_layoutDetail_floats:
  "length (layoutDetail_floats v scale k) =
     (if k = VERTEX_LAYOUT_UV then 2
      else if k = VERTEX_LAYOUT_DUMMY_FLOAT then 1
      else if k = VERTEX_LAYOUT_DUMMY_VEC4 then 4
      else if is_enumerator k then 3 else 0)"
proof (cases "is_enumerator k")
  case True
  then consider "k = VERTEX_LAYOUT_POSITION" | "k = VERTEX_LAYOUT_NORMAL"
    | "k = VERTEX_LAYOUT_COLOR" | "k = VERTEX_LAYOUT_UV" | "k = VERTEX_LAYOUT_TANGENT"
    | "k = VERTEX_LAYOUT_BITANGENT" | "k = VERTEX_LAYOUT_DUMMY_FLOAT"
    | "k = VERTEX_LAYOUT_DUMMY_VEC4"
    by (auto simp: is_enumerator_def enumerators_def)
  then show ?thesis
  proof cases
    case 1 then show ?thesis using True
      by (simp add: layoutDetail_floats_POSITION) (simp add: VertexLayout_defs)
  next
    case 2 then show ?thesis using True
      by (simp add: layoutDetail_floats_NORMAL) (simp add: VertexLayout_defs)
  next
    case 3 then show ?thesis using True
      by (simp add: layoutDetail_floats_COLOR) (simp add: VertexLayout_defs)
  next
    case 4 then show ?thesis by (simp add: layoutDetail_floats_UV)
  next
    case 5 then show ?thesis using True
      by (simp add: layoutDetail_floats_TANGENT) (simp add: VertexLayout_defs)
  next
    case 6 then show ?thesis using True
      by (simp add: layoutDetail_floats_BITANGENT) (simp add: VertexLayout_defs)
  next
    case 7 then show ?thesis
      by (simp add: layoutDetail_floats_DUMMY_FLOAT) (simp add: VertexLayout_defs)
  next
    case 8 then show ?thesis
      by (simp add: layoutDetail_floats_DUMMY_VEC4) (simp add: VertexLayout_defs)
  qed
next
  case False
  then have "k \<noteq> VERTEX_LAYOUT_UV" "k \<noteq> VERTEX_LAYOUT_DUMMY_FLOAT" "k \<noteq> VERTEX_LAYOUT_DUMMY_VEC4"
    by (auto simp: is_enumerator_def enumerators_def)
  with False show ?thesis by (simp add: layoutDetail_floats_other)
qed

text \<open>The length of the vertex stream: the vertices times the floats one vertex takes.\<close>

lemma length_pack_vertices:
  "length (pack_vertices entries layout scale) =
     sum_list (map (\<lambda>e. length (Vertices e)) entries) *
     sum_list (map (\<lambda>k. length (layoutDetail_floats v0 scale k)) layout)"
proof -
  have v: "length (concat (map (layoutDetail_floats v scale) layout)) =
      sum_list (map (\<lambda>k. length (layoutDetail_floats v0 scale k)) layout)" for v
    by (simp add: length_concat comp_def length_layoutDetail_floats)
  have e: "length (concat (map (\<lambda>v. concat (map (layoutDetail_floats v scale) layout)) vs)) =
      length vs * sum_list (map (\<lambda>k. length (layoutDetail_floats v0 scale k)) layout)" for vs
    by (induction vs) (simp_all add: v)
  have "length (concat (map (\<lambda>e. concat (map (\<lambda>v. concat (map (layoutDetail_floats v scale)
          layout)) (Vertices e))) es)) =
      sum_list (map (\<lambda>e. length (Vertices e)) es) *
      sum_list (map (\<lambda>k. length (layoutDetail_floats v0 scale k)) layout)" for es
    by (induction es) (simp_all add: e algebra_simps)
  then show ?thesis by (simp add: pack_vertices_concat)
qed

text \<open>The stride as a sum: 8 bytes for uv, 12 for every other value.\<close>

lemma vertexSize_sum:
  "vertexSize layout =
     of_nat (sum_list (map (\<lambda>k. if k = VERTEX_LAYOUT_UV then 8 else 12) layout))"
proof -
  have "vertexSize_loop layout a =
      a + of_nat (sum_list (map (\<lambda>k. if k = VERTEX_LAYOUT_UV then 8 else 12) layout))" for a
    by (induction layout arbitrary: a) (simp_all add: sizeof_float_def)
  then show ?thesis by (simp add: vertexSize_def)
qed

text \<open>
  For a layout without padding and without unknown values, the stride is four bytes for
  each float the packing loop pushes for a vertex.
\<close>

lemma vertexSize_matches_packing:
  assumes "set layout \<subseteq> {VERTEX_LAYOUT_POSITION, VERTEX_LAYOUT_NORMAL, VERTEX_LAYOUT_COLOR,
      VERTEX_LAYOUT_UV, VERTEX_LAYOUT_TANGENT, VERTEX_LAYOUT_BITANGENT}"
  shows "vertexSize layout =
     of_nat (4 * sum_list (map (\<lambda>k. length (layoutDetail_floats v scale k)) layout))"
proof -
  have "sum_list (map (\<lambda>k. if k = VERTEX_LAYOUT_UV then 8 else 12) layout) =
        4 * sum_list (map (\<lambda>k. length (layoutDetail_floats v scale k)) layout)"
    using assms
  proof (induction layout)
    case Nil
    show ?case by simp
  next
    case (Cons k ks)
    then have "k \<in> {VERTEX_LAYOUT_POSITION, VERTEX_LAYOUT_NORMAL, VERTEX_LAYOUT_COLOR,
      VERTEX_LAYOUT_UV, VERTEX_LAYOUT_TANGENT, VERTEX_LAYOUT_BITANGENT}" by simp
    then have "(if k = VERTEX_LAYOUT_UV then 8 else 12) = 4 * length (layoutDetail_floats v scale k)"
      by (auto simp: length_layoutDetail_floats is_enumerator_def enumerators_def VertexLayout_defs)
    with Cons show ?case by simp
  qed
  then show ?thesis by (simp only: vertexSize_sum)
qed

lemma ingested_two_points:
  "map (\<lambda>e. length (Vertices e)) (m_Entries (snd (InitFromScene scene_two_points loader0))) = [2]
   \<and> numVertices (snd (InitFromScene scene_two_points loader0)) = 2"
  by (simp add: InitFromScene_constructed [OF constructed_loader0] scene_two_points_def
      scene_of_def mesh_of_def mNumMeshes_def mNumVertices_def MeshEntry_init_def)

text \<open>
  C5. The claim takes the stream of \<open>N\<close> vertices to hold \<open>N\<close> times the stride over 4 floats,
  the stride being that of \<open>vertexSize\<close>. The packing loop pushes 1 float for
  \<^verbatim>\<open>VERTEX_LAYOUT_DUMMY_FLOAT\<close> and 4 for \<^verbatim>\<open>VERTEX_LAYOUT_DUMMY_VEC4\<close>, and \<open>vertexSize\<close>
  counts 12 bytes for each (the defect of C2): for the two vertices of \<open>scene_two_points\<close>
  the stream of \<open>[DUMMY_FLOAT]\<close> has 2 floats where 2 times 12 over 4 is 6, and the stream of
  \<open>[DUMMY_VEC4]\<close> has 8. For a layout without padding the two agree
  (\<open>vertexSize_matches_packing\<close>, \<open>length_pack_vertices\<close>).
\<close>

theorem stream_length_differs_from_stride_for_pad_kinds:
  "numVertices (snd (InitFromScene scene_two_points loader0)) = 2
   \<and> vertexSize [VERTEX_LAYOUT_DUMMY_FLOAT] = 12
   \<and> length (vertexBuffer (createBuffers device deviceMemoryProperties
        [VERTEX_LAYOUT_DUMMY_FLOAT] scale useStaging copyCmd copyQueue
        (snd (InitFromScene scene_two_points loader0)))) = 2
   \<and> unat (numVertices (snd (InitFromScene scene_two_points loader0))) *
        (unat (vertexSize [VERTEX_LAYOUT_DUMMY_FLOAT]) div 4) = 6
   \<and> vertexSize [VERTEX_LAYOUT_DUMMY_VEC4] = 12
   \<and> length (vertexBuffer (createBuffers device deviceMemoryProperties
        [VERTEX_LAYOUT_DUMMY_VEC4] scale useStaging copyCmd copyQueue
        (snd (InitFromScene scene_two_points loader0)))) = 8"
proof -
  have 1: "vertexSize [VERTEX_LAYOUT_DUMMY_FLOAT] = 12" "vertexSize [VERTEX_LAYOUT_DUMMY_VEC4] = 12"
    by (simp_all add: vertexSize_def sizeof_float_def VertexLayout_defs)
  have 2: "length (pack_vertices (m_Entries (snd (InitFromScene scene_two_points loader0)))
        [VERTEX_LAYOUT_DUMMY_FLOAT] scale) = 2"
    using ingested_two_points
    by (simp add: length_pack_vertices [where ?v0.0 = undefined] layoutDetail_floats_DUMMY_FLOAT)
  have 3: "length (pack_vertices (m_Entries (snd (InitFromScene scene_two_points loader0)))
        [VERTEX_LAYOUT_DUMMY_VEC4] scale) = 8"
    using ingested_two_points
    by (simp add: length_pack_vertices [where ?v0.0 = undefined] layoutDetail_floats_DUMMY_VEC4)
  show ?thesis
    using ingested_two_points 1 2 3 by simp
qed

subsection \<open>Layout values that are no enumerator\<close>

lemma pack_vertices_filter:
  "pack_vertices entries layout scale = pack_vertices entries (filter is_enumerator layout) scale"
proof -
  have "concat (map (layoutDetail_floats v scale) layout) =
        concat (map (layoutDetail_floats v scale) (filter is_enumerator layout))" for v
    by (induction layout) (simp_all add: layoutDetail_floats_other)
  then show ?thesis by (simp add: pack_vertices_concat)
qed

lemma allocations_createBuffer:
  "filter is_allocation (createBuffer device dmp usageFlags memoryPropertyFlags bytes) =
     [CreateBuffer usageFlags bytes,
      AllocateMemory (requiredSize (device usageFlags bytes))
        (getMemoryType dmp (memoryTypeBits (device usageFlags bytes)) memoryPropertyFlags)]"
  by (simp add: createBuffer_def Let_def)

lemma length_allocations_createBuffers:
  "length (filter is_allocation (calls (createBuffers device dmp layout scale useStaging copyCmd
      copyQueue s))) = (if useStaging \<and> copyQueue \<and> copyCmd then 8 else 4)"
  by (simp add: createBuffers_def Let_def staging_path_def direct_path_def
      allocations_createBuffer)

lemma positions_two_points:
  "map (\<lambda>e. map m_pos (Vertices e)) (m_Entries (snd (InitFromScene scene_two_points loader0))) =
     [[Vec3 1 (- 2) 3, Vec3 (- 1) (- 5) 0]]"
  by (simp add: InitFromScene_constructed [OF constructed_loader0] scene_two_points_def
      scene_of_def mesh_of_def mNumMeshes_def mNumVertices_def MeshEntry_init_def
      m_pos_InitMesh_v numeral_2_eq_2)

lemma Indices_two_points:
  "map Indices (m_Entries (snd (InitFromScene scene_two_points loader0))) = [[]]"
  by (simp add: InitFromScene_constructed [OF constructed_loader0] scene_two_points_def
      scene_of_def mesh_of_def mNumMeshes_def mNumVertices_def MeshEntry_init_def)

lemma not_is_enumerator_8: "\<not> is_enumerator 8"
  by (simp add: is_enumerator_def enumerators_def VertexLayout_defs)

lemma getMemoryType_example:
  "getMemoryType deviceMemoryProperties0 0xFFFFFFFF eHostVisible = 1"
proof -
  have "getMemoryType deviceMemoryProperties0 0xFFFFFFFF eHostVisible = of_nat 1"
    by (rule getMemoryType_first)
       (simp_all add: qualifies_def deviceMemoryProperties0_def eHostVisible_def eDeviceLocal_def)
  then show ?thesis by simp
qed

lemma pack_positions:
  "pack_vertices entries [8, VERTEX_LAYOUT_POSITION] 1 =
     concat (map (\<lambda>p. [fmul (vec3_x p) 1, fmul (vec3_y p) 1, fmul (vec3_z p) 1])
       (concat (map (\<lambda>e. map m_pos (Vertices e)) entries)))"
proof -
  have "pack_vertices entries [8, VERTEX_LAYOUT_POSITION] 1 =
      concat (map (\<lambda>e. concat (map (\<lambda>v. [fmul (vec3_x (m_pos v)) 1, fmul (vec3_y (m_pos v)) 1,
          fmul (vec3_z (m_pos v)) 1]) (Vertices e))) entries)"
    by (simp add: pack_vertices_concat layoutDetail_floats_POSITION
        layoutDetail_floats_other [OF not_is_enumerator_8])
  also have "\<dots> = concat (map (\<lambda>p. [fmul (vec3_x p) 1, fmul (vec3_y p) 1, fmul (vec3_z p) 1])
       (concat (map (\<lambda>e. map m_pos (Vertices e)) entries)))"
    by (induction entries) (simp_all add: comp_def)
  finally show ?thesis .
qed

text \<open>
  C4, as stated, fails: the layout \<open>[8, VERTEX_LAYOUT_POSITION]\<close> holds the value 8, which
  is none of the eight enumerators, and \<^verbatim>\<open>createBuffers\<close> packs the positions of the two
  vertices, creates both buffers and allocates their memory.
\<close>

theorem unknown_kind_is_skipped_counterexample:
  "\<not> is_enumerator 8
   \<and> vertexBuffer (createBuffers device0 deviceMemoryProperties0 [8, VERTEX_LAYOUT_POSITION] 1
        False False False (snd (InitFromScene scene_two_points loader0))) =
       [1, - 2, 3, - 1, - 5, 0]
   \<and> filter is_allocation
        (calls (createBuffers device0 deviceMemoryProperties0 [8, VERTEX_LAYOUT_POSITION] 1
           False False False (snd (InitFromScene scene_two_points loader0)))) =
       [CreateBuffer (eVertexBuffer OR eTransferSrc) 24, AllocateMemory 24 1,
        CreateBuffer (eIndexBuffer OR eTransferSrc) 0, AllocateMemory 0 1]"
proof -
  have v: "pack_vertices (m_Entries (snd (InitFromScene scene_two_points loader0)))
        [8, VERTEX_LAYOUT_POSITION] 1 = [1, - 2, 3, - 1, - 5, 0]"
    by (simp add: pack_positions positions_two_points fmul_def fl_numeral fl_neg_numeral)
  have i: "merge_indices (m_Entries (snd (InitFromScene scene_two_points loader0))) = []"
    by (simp add: merge_indices_map Indices_two_points)
  have c: "filter is_allocation
        (calls (createBuffers device0 deviceMemoryProperties0 [8, VERTEX_LAYOUT_POSITION] 1
           False False False (snd (InitFromScene scene_two_points loader0)))) =
       [CreateBuffer (eVertexBuffer OR eTransferSrc) 24, AllocateMemory 24 1,
        CreateBuffer (eIndexBuffer OR eTransferSrc) 0, AllocateMemory 0 1]"
    by (simp add: createBuffers_def Let_def direct_path_def allocations_createBuffer v i
        sizeof_float_def sizeof_uint32_t_def device0_def getMemoryType_example
        del: getMemoryType_loop.simps)
  show ?thesis
    using not_is_enumerator_8 v c by simp
qed

text \<open>
  C4, amended. Packing has no failure: a layout element that is none of the eight
  enumerators matches none of the \<^verbatim>\<open>if\<close> statements of the packing loop and leaves the
  stream as it is, so the stream of a layout is the stream of the layout without such
  elements; and \<^verbatim>\<open>createBuffers\<close> goes on to its buffer creations and memory allocations,
  four on the direct path and eight on the staging path, whatever the layout.
\<close>

theorem unknown_kind_is_skipped:
  "(\<not> is_enumerator layoutDetail \<longrightarrow>
      push_layoutDetail v scale layoutDetail vb = vb)
   \<and> vertexBuffer (createBuffers device deviceMemoryProperties layout scale useStaging copyCmd
        copyQueue s) =
       vertexBuffer (createBuffers device deviceMemoryProperties (filter is_enumerator layout)
         scale useStaging copyCmd copyQueue s)
   \<and> length (filter is_allocation (calls (createBuffers device deviceMemoryProperties layout
        scale useStaging copyCmd copyQueue s))) =
       (if useStaging \<and> copyQueue \<and> copyCmd then 8 else 4)"
  using pack_vertices_filter [of "m_Entries s" layout scale]
  by (simp add: push_layoutDetail_append layoutDetail_floats_other
      length_allocations_createBuffers)

theorem unknown_kind_is_skipped_witness:
  "\<not> is_enumerator 8
   \<and> push_layoutDetail
        (Vertex_ctor (Vec3 1 2 3) (Vec2 0 0) (Vec3 0 0 1) (Vec3 0 0 0) (Vec3 0 0 0) (Vec3 1 1 1))
        2 8 [7] = [7]
   \<and> vertexBuffer (createBuffers device0 deviceMemoryProperties0 [8, VERTEX_LAYOUT_POSITION] 2
        False False False (snd (InitFromScene scene_two_points loader0))) =
       vertexBuffer (createBuffers device0 deviceMemoryProperties0 [VERTEX_LAYOUT_POSITION] 2
        False False False (snd (InitFromScene scene_two_points loader0)))
   \<and> length (filter is_allocation (calls (createBuffers device0 deviceMemoryProperties0
        [8, VERTEX_LAYOUT_POSITION] 2 False False False
        (snd (InitFromScene scene_two_points loader0))))) = 4"
proof -
  have f: "filter is_enumerator [8, VERTEX_LAYOUT_POSITION] = [VERTEX_LAYOUT_POSITION]"
    by (simp add: is_enumerator_def enumerators_def VertexLayout_defs)
  note t = unknown_kind_is_skipped [of 8
      "Vertex_ctor (Vec3 1 2 3) (Vec2 0 0) (Vec3 0 0 1) (Vec3 0 0 0) (Vec3 0 0 0) (Vec3 1 1 1)"
      2 "[7]" device0 deviceMemoryProperties0 "[8, VERTEX_LAYOUT_POSITION]" False False False
      "snd (InitFromScene scene_two_points loader0)", unfolded f]
  show ?thesis
    using t not_is_enumerator_8 by simp
qed

end
